theory Spec2Isabelle
  imports Complex_Main "HOL-Library.AList"
begin

section \<open>Python values, exceptions and built-ins\<close>

text \<open>
  The three scripts (\<open>keyword_performance.py\<close>, \<open>page_performance_comparison.py\<close>,
  \<open>page_indexing.py\<close>) are embedded as HOL functions.  Python \<open>float\<close> values are
  modelled as \<open>real\<close>: arithmetic is exact, so rounding error, infinities and NaN are
  outside the model.  A value written into a CSV row is a string, an \<open>int\<close> or a
  \<open>float\<close>; the empty field is the empty string \<open>PStr ''''\<close>.
\<close>

datatype pyval = PStr string | PInt int | PFloat real

datatype py_error =
    ValueError
  | OverflowError
  | TypeError
  | ZeroDivisionError
  | IllegalMonthError
  | FileNotFoundError
  | SystemExit pyval
  | OtherException string

text \<open>
  \<open>round(x)\<close> on a float rounds to the nearest integer, ties to the even one;
  \<open>round(x, n)\<close> does the same at the \<open>n\<close>-th decimal place.
\<close>

definition py_round :: "real \<Rightarrow> int" where
  "py_round x =
     (let f = \<lfloor>x\<rfloor>; d = x - of_int f
      in if d < 1 / 2 then f
         else if 1 / 2 < d then f + 1
         else if even f then f else f + 1)"

definition round_nd :: "real \<Rightarrow> nat \<Rightarrow> real" where
  "round_nd x n = of_int (py_round (x * 10 ^ n)) / 10 ^ n"

text \<open>\<open>round(v, n)\<close> on a dynamically typed value: an \<open>int\<close> stays an \<open>int\<close>, a string raises.\<close>

fun py_round_val :: "pyval \<Rightarrow> nat \<Rightarrow> py_error + pyval" where
  "py_round_val (PFloat x) n = Inr (PFloat (round_nd x n))"
| "py_round_val (PInt i) n = Inr (PInt i)"
| "py_round_val (PStr s) n = Inl TypeError"

text \<open>Float division \<open>a / b\<close> raises on a zero divisor.\<close>

definition py_truediv :: "real \<Rightarrow> real \<Rightarrow> py_error + real" where
  "py_truediv a b = (if b = 0 then Inl ZeroDivisionError else Inr (a / b))"

text \<open>\<open>str(n)\<close> for a non-negative integer, and zero padding as in \<open>f"{n:04d}"\<close>.\<close>

fun dec :: "nat \<Rightarrow> string" where
  "dec n = (if n < 10 then [''0123456789'' ! n]
            else dec (n div 10) @ [''0123456789'' ! (n mod 10)])"

declare dec.simps [simp del]

definition zfill :: "nat \<Rightarrow> string \<Rightarrow> string" where
  "zfill w s = replicate (w - length s) (CHR ''0'') @ s"

section \<open>Calendar dates\<close>

text \<open>
  A \<open>datetime.date\<close> is represented by its proleptic Gregorian ordinal
  (\<open>date.toordinal()\<close>: 0001-01-01 is day 1, 9999-12-31 is day 3652059).  Comparison of
  dates is comparison of ordinals, \<open>(a - b).days\<close> is their difference, and adding or
  subtracting a \<open>timedelta\<close> raises \<open>OverflowError\<close> when the result leaves the range
  of the type.  The fields \<open>year\<close>, \<open>month\<close>, \<open>day\<close> and the constructor
  \<open>date(y, m, d)\<close> follow the conversions of the standard library.
\<close>

type_synonym date = int

definition min_ordinal :: int where
  "min_ordinal = 1"

definition max_ordinal :: int where
  "max_ordinal = 3652059"

definition date_valid :: "date \<Rightarrow> bool" where
  "date_valid d = (min_ordinal \<le> d \<and> d \<le> max_ordinal)"

definition is_leap :: "int \<Rightarrow> bool" where
  "is_leap y = (y mod 4 = 0 \<and> (y mod 100 \<noteq> 0 \<or> y mod 400 = 0))"

definition DAYS_IN_MONTH :: "int list" where
  "DAYS_IN_MONTH = [-1, 31, 28, 31, 30, 31, 30, 31, 31, 30, 31, 30, 31]"

definition DAYS_BEFORE_MONTH :: "int list" where
  "DAYS_BEFORE_MONTH = [-1, 0, 31, 59, 90, 120, 151, 181, 212, 243, 273, 304, 334]"

definition days_before_year :: "int \<Rightarrow> int" where
  "days_before_year year = (let y = year - 1 in y * 365 + y div 4 - y div 100 + y div 400)"

definition days_in_month :: "int \<Rightarrow> int \<Rightarrow> int" where
  "days_in_month year month =
     (if month = 2 \<and> is_leap year then 29 else DAYS_IN_MONTH ! nat month)"

definition days_before_month :: "int \<Rightarrow> int \<Rightarrow> int" where
  "days_before_month year month =
     DAYS_BEFORE_MONTH ! nat month + (if 2 < month \<and> is_leap year then 1 else 0)"

definition ymd2ord :: "int \<Rightarrow> int \<Rightarrow> int \<Rightarrow> int" where
  "ymd2ord year month day = days_before_year year + days_before_month year month + day"

definition ord2ymd :: "int \<Rightarrow> int \<times> int \<times> int" where
  "ord2ymd n0 =
     (let n = n0 - 1;
          n400 = n div 146097; n = n mod 146097;
          n100 = n div 36524; n = n mod 36524;
          n4 = n div 1461; n = n mod 1461;
          n1 = n div 365; n = n mod 365;
          year = n400 * 400 + 1 + n100 * 100 + n4 * 4 + n1
      in if n1 = 4 \<or> n100 = 4 then (year - 1, 12, 31)
         else
           let leapyear = (n1 = 3 \<and> (n4 \<noteq> 24 \<or> n100 = 3));
               month = (n + 50) div 32;
               preceding = DAYS_BEFORE_MONTH ! nat month + (if 2 < month \<and> leapyear then 1 else 0)
           in if n < preceding
              then
                let month' = month - 1;
                    preceding' = preceding -
                      (DAYS_IN_MONTH ! nat month' + (if month' = 2 \<and> leapyear then 1 else 0))
                in (year, month', n - preceding' + 1)
              else (year, month, n - preceding + 1))"

definition year_of :: "date \<Rightarrow> int" where
  "year_of d = fst (ord2ymd d)"

definition month_of :: "date \<Rightarrow> int" where
  "month_of d = fst (snd (ord2ymd d))"

definition day_of :: "date \<Rightarrow> int" where
  "day_of d = snd (snd (ord2ymd d))"

text \<open>The constructor \<open>date(year, month, day)\<close> checks its fields.\<close>

definition mk_date :: "int \<Rightarrow> int \<Rightarrow> int \<Rightarrow> py_error + date" where
  "mk_date year month day =
     (if \<not> (1 \<le> year \<and> year \<le> 9999) then Inl ValueError
      else if \<not> (1 \<le> month \<and> month \<le> 12) then Inl ValueError
      else if \<not> (1 \<le> day \<and> day \<le> days_in_month year month) then Inl ValueError
      else Inr (ymd2ord year month day))"

text \<open>\<open>d + timedelta(days=n)\<close> and \<open>d - timedelta(days=n)\<close>.\<close>

definition date_plus_days :: "date \<Rightarrow> int \<Rightarrow> py_error + date" where
  "date_plus_days d n =
     (let ordinal = d + n
      in if 0 < ordinal \<and> ordinal \<le> max_ordinal then Inr ordinal else Inl OverflowError)"

definition date_minus_days :: "date \<Rightarrow> int \<Rightarrow> py_error + date" where
  "date_minus_days d n = date_plus_days d (- n)"

definition isoformat :: "date \<Rightarrow> string" where
  "isoformat d =
     zfill 4 (dec (nat (year_of d))) @ ''-'' @ zfill 2 (dec (nat (month_of d))) @ ''-'' @
     zfill 2 (dec (nat (day_of d)))"

text \<open>\<open>calendar.monthrange(year, month)[1]\<close>: the number of days of the month.\<close>

definition monthrange_ndays :: "int \<Rightarrow> int \<Rightarrow> py_error + int" where
  "monthrange_ndays year month =
     (if \<not> (1 \<le> month \<and> month \<le> 12) then Inl IllegalMonthError
      else Inr (DAYS_IN_MONTH ! nat month + (if month = 2 \<and> is_leap year then 1 else 0)))"

section \<open>Date window calculator (page\_performance\_comparison.py)\<close>

text \<open>The \<open>while m <= 0\<close> loop of \<open>subtract_months\<close>.\<close>

function subtract_months_loop :: "int \<Rightarrow> int \<Rightarrow> int \<times> int" where
  "subtract_months_loop y m =
     (if m \<le> 0 then subtract_months_loop (y - 1) (m + 12) else (y, m))"
  by pat_completeness auto
termination
  by (relation "measure (\<lambda>(y, m). nat (1 - m))") auto

declare subtract_months_loop.simps [simp del]

definition subtract_months :: "date \<Rightarrow> int \<Rightarrow> py_error + date" where
  "subtract_months d months =
     (case subtract_months_loop (year_of d) (month_of d - months) of
        (y, m) \<Rightarrow>
          (case monthrange_ndays y m of
             Inl e \<Rightarrow> Inl e
           | Inr last_day \<Rightarrow> mk_date y m (min (day_of d) last_day)))"

definition earliest_gsc_date :: "date \<Rightarrow> py_error + date" where
  "earliest_gsc_date today = subtract_months today 16"

text \<open>
  \<open>compute_previous_period\<close>: the period of the same inclusive length that ends the day
  before the current one starts.
\<close>

definition compute_previous_period :: "date \<Rightarrow> date \<Rightarrow> py_error + (date \<times> date \<times> int)" where
  "compute_previous_period cur_start cur_end =
     (if cur_end < cur_start then Inl ValueError
      else
        let days_inclusive = (cur_end - cur_start) + 1
        in case date_minus_days cur_start 1 of
             Inl e \<Rightarrow> Inl e
           | Inr prev_end \<Rightarrow>
               (case date_minus_days prev_end (days_inclusive - 1) of
                  Inl e \<Rightarrow> Inl e
                | Inr prev_start \<Rightarrow> Inr (prev_start, prev_end, days_inclusive)))"

section \<open>Change calculator (page\_performance\_comparison.py)\<close>

definition pct_change :: "real \<Rightarrow> real \<Rightarrow> real option" where
  "pct_change current previous =
     (if previous = 0 then (if current = 0 then Some 0 else None)
      else Some (((current - previous) / previous) * 100))"

text \<open>The cell written for a percentage: \<open>"" if pct is None else round(pct, 2)\<close>.\<close>

definition pct_cell :: "real option \<Rightarrow> pyval" where
  "pct_cell pct = (case pct of None \<Rightarrow> PStr '''' | Some p \<Rightarrow> PFloat (round_nd p 2))"

text \<open>The cell written for a count or an absolute change: \<open>int(round(x))\<close>.\<close>

definition int_cell :: "real \<Rightarrow> pyval" where
  "int_cell x = PInt (py_round x)"

section \<open>The query service and the effects of a run\<close>

text \<open>
  The Search Console client is an external collaborator.  A Search Analytics query
  (\<open>service.searchanalytics().query(siteUrl=..., body=...).execute()\<close>) returns the
  list of rows of its response (\<open>resp.get("rows", []) or []\<close>), raises \<open>HttpError\<close>,
  or raises an exception of another class (a timeout, a connection or a token error),
  given here by its message.  The keyword and comparison scripts catch \<open>HttpError\<close>
  alone: any other exception leaves the loop and ends the run.  A row is a dictionary from
  field names to numbers.  The service is a function of the request and of the number
  of calls made before it, so that any mix of outcomes over a run can be described,
  also for a target that occurs twice.
\<close>

record http_error =
  status_code :: "int option"
  error_text :: string

type_synonym api_row = "string \<rightharpoonup> real"

record sa_request =
  rq_site_url :: string
  rq_start_date :: string
  rq_end_date :: string
  rq_dimension :: string
  rq_operator :: string
  rq_expression :: string
  rq_row_limit :: nat

datatype sa_outcome = SaRows "api_row list" | SaHttpError http_error | SaOtherError string

text \<open>What a fetch raises: \<open>HttpError\<close>, or an exception of another class.\<close>

datatype raised = RaisedHttpError http_error | RaisedOther string

type_synonym sa_service = "nat \<Rightarrow> sa_request \<Rightarrow> sa_outcome"

text \<open>
  The URL Inspection call of \<open>page_indexing.py\<close> returns the \<open>indexStatusResult\<close>
  object of the response when it has one (its string fields, and the list
  \<open>referringUrls\<close> when present), raises \<open>HttpError\<close>, or raises another exception.
\<close>

record index_status =
  is_fields :: "string \<rightharpoonup> string"
  is_referring_urls :: "string list option"

record inspect_request =
  iq_inspection_url :: string
  iq_site_url :: string
  iq_language_code :: string

datatype inspect_outcome =
    InspectReturned "index_status option"
  | InspectHttpError http_error
  | InspectOtherError string

type_synonym inspect_service = "nat \<Rightarrow> inspect_request \<Rightarrow> inspect_outcome"

text \<open>
  What a run does is recorded as a trace of events, in the order of execution: calls to
  the service, rows handed to the CSV writer, console messages and \<open>time.sleep\<close> pauses.
\<close>

type_synonym row = "(string \<times> pyval) list"

datatype message =
    MsgOutsideWindow date date date
  | MsgPreviousPeriod string string int
  | MsgComparing nat
  | MsgInspecting nat
  | MsgSavingTo
  | MsgHttpErrorFor string http_error
  | MsgProcessed nat nat
  | MsgCouldNotReadUrls
  | MsgNoUrlsFound string
  | MsgDone

datatype event =
    Fetch sa_request
  | Inspect inspect_request
  | WriteHeader "string list"
  | WriteRow row
  | Print message
  | Sleep real

definition rows_of :: "event list \<Rightarrow> row list" where
  "rows_of tr = concat (map (\<lambda>e. case e of WriteRow r \<Rightarrow> [r] | _ \<Rightarrow> []) tr)"

definition fetches_of :: "event list \<Rightarrow> sa_request list" where
  "fetches_of tr = concat (map (\<lambda>e. case e of Fetch q \<Rightarrow> [q] | _ \<Rightarrow> []) tr)"

definition sleeps_of :: "event list \<Rightarrow> real list" where
  "sleeps_of tr = concat (map (\<lambda>e. case e of Sleep t \<Rightarrow> [t] | _ \<Rightarrow> []) tr)"

text \<open>\<open>float(r.get(key, 0))\<close> on a row.\<close>

definition get_float :: "api_row \<Rightarrow> string \<Rightarrow> real" where
  "get_float r key = (case r key of None \<Rightarrow> 0 | Some v \<Rightarrow> v)"

section \<open>Target list loader (all three scripts)\<close>

text \<open>
  \<open>str.strip()\<close> removes leading and trailing whitespace.  Characters are the code
  points below 256; among them Python counts as whitespace the code points 9 to 13, 28
  to 32, 133 and 160.
\<close>

definition is_space :: "char \<Rightarrow> bool" where
  "is_space c = ((of_char c :: nat) \<in> {9, 10, 11, 12, 13, 28, 29, 30, 31, 32, 133, 160})"

definition py_strip :: "string \<Rightarrow> string" where
  "py_strip s = rev (dropWhile is_space (rev (dropWhile is_space s)))"

definition py_startswith :: "string \<Rightarrow> string \<Rightarrow> bool" where
  "py_startswith s p = (take (length p) s = p)"

text \<open>The first loop of \<open>read_list\<close>: strip each line, skip empty lines and comments.\<close>

fun collect_lines :: "string list \<Rightarrow> string list \<Rightarrow> string list" where
  "collect_lines [] items = items"
| "collect_lines (line # rest) items =
     (let v = py_strip line
      in if v = [] \<or> py_startswith v ''#'' then collect_lines rest items
         else collect_lines rest (items @ [v]))"

text \<open>The second loop: de-duplicate with the set \<open>seen\<close>, appending to \<open>out\<close>.\<close>

fun dedup_loop :: "string list \<Rightarrow> string set \<Rightarrow> string list \<Rightarrow> string list" where
  "dedup_loop [] seen out = out"
| "dedup_loop (v # rest) seen out =
     (if v \<notin> seen then dedup_loop rest (insert v seen) (out @ [v])
      else dedup_loop rest seen out)"

text \<open>
  A file system maps a path to the lines of the file there (each line as the text-mode
  iterator yields it, with its line end), or to \<open>None\<close> when \<open>os.path.exists\<close> is false.
\<close>

type_synonym file_system = "string \<rightharpoonup> string list"

definition read_list :: "file_system \<Rightarrow> string \<Rightarrow> py_error + string list" where
  "read_list fs path =
     (case fs path of
        None \<Rightarrow> Inl FileNotFoundError
      | Some lines \<Rightarrow> Inr (dedup_loop (collect_lines lines []) {} []))"

definition read_url_list :: "file_system \<Rightarrow> string \<Rightarrow> py_error + string list" where
  "read_url_list fs path =
     (case fs path of
        None \<Rightarrow> Inl FileNotFoundError
      | Some lines \<Rightarrow> Inr (dedup_loop (collect_lines lines []) {} []))"

definition read_urls :: "file_system \<Rightarrow> string \<Rightarrow> py_error + string list" where
  "read_urls fs path =
     (case fs path of
        None \<Rightarrow> Inl FileNotFoundError
      | Some lines \<Rightarrow> Inr (dedup_loop (collect_lines lines []) {} []))"

section \<open>Single-period mode (keyword\_performance.py)\<close>

record keyword_ctx =
  kc_site_url :: string
  kc_start_date :: string
  kc_end_date :: string
  kc_match_type :: string

definition keyword_fieldnames :: "string list" where
  "keyword_fieldnames =
     [''keyword'', ''clicks'', ''impressions'', ''ctr'', ''position'', ''start_date'',
      ''end_date'', ''match_type'']"

definition keyword_request :: "keyword_ctx \<Rightarrow> string \<Rightarrow> sa_request" where
  "keyword_request cx kw =
     \<lparr>rq_site_url = kc_site_url cx, rq_start_date = kc_start_date cx,
      rq_end_date = kc_end_date cx, rq_dimension = ''query'',
      rq_operator = kc_match_type cx, rq_expression = kw, rq_row_limit = 25000\<rparr>"

text \<open>The \<open>for r in rows\<close> loop with its three running totals.\<close>

fun accumulate_rows :: "api_row list \<Rightarrow> real \<times> real \<times> real \<Rightarrow> real \<times> real \<times> real" where
  "accumulate_rows [] acc = acc"
| "accumulate_rows (r # rest) (total_clicks, total_impr, weighted_pos) =
     (let c = get_float r ''clicks'';
          im = get_float r ''impressions'';
          pos = get_float r ''position''
      in accumulate_rows rest (total_clicks + c, total_impr + im, weighted_pos + pos * im))"

text \<open>
  The aggregate of a non-empty response: the two totals, \<open>ctr\<close> (a float, or the
  integer 0) and \<open>avg_pos\<close> (a float, or the empty string).
\<close>

record keyword_agg =
  agg_clicks :: real
  agg_impressions :: real
  agg_ctr :: pyval
  agg_position :: pyval

definition keyword_aggregate :: "api_row list \<Rightarrow> py_error + keyword_agg" where
  "keyword_aggregate rows =
     (case accumulate_rows rows (0, 0, 0) of
        (total_clicks, total_impr, weighted_pos) \<Rightarrow>
          (case (if 0 < total_impr then map_sum id PFloat (py_truediv total_clicks total_impr)
                 else Inr (PInt 0)) of
             Inl e \<Rightarrow> Inl e
           | Inr c \<Rightarrow>
               (case (if 0 < total_impr
                      then map_sum id PFloat (py_truediv weighted_pos total_impr)
                      else Inr (PStr '''')) of
                  Inl e \<Rightarrow> Inl e
                | Inr avg_pos \<Rightarrow>
                    Inr \<lparr>agg_clicks = total_clicks, agg_impressions = total_impr,
                         agg_ctr = c, agg_position = avg_pos\<rparr>)))"

definition keyword_data_row :: "keyword_ctx \<Rightarrow> string \<Rightarrow> keyword_agg \<Rightarrow> py_error + row" where
  "keyword_data_row cx kw a =
     (case py_round_val (agg_ctr a) 4 of
        Inl e \<Rightarrow> Inl e
      | Inr ctr_cell \<Rightarrow>
          (case (if agg_position a \<noteq> PStr '''' then py_round_val (agg_position a) 2
                 else Inr (PStr '''')) of
             Inl e \<Rightarrow> Inl e
           | Inr position_cell \<Rightarrow>
               Inr [(''keyword'', PStr kw),
                    (''start_date'', PStr (kc_start_date cx)),
                    (''end_date'', PStr (kc_end_date cx)),
                    (''match_type'', PStr (kc_match_type cx)),
                    (''clicks'', int_cell (agg_clicks a)),
                    (''impressions'', int_cell (agg_impressions a)),
                    (''ctr'', ctr_cell),
                    (''position'', position_cell)]))"

definition keyword_zero_row :: "keyword_ctx \<Rightarrow> string \<Rightarrow> row" where
  "keyword_zero_row cx kw =
     [(''keyword'', PStr kw),
      (''start_date'', PStr (kc_start_date cx)),
      (''end_date'', PStr (kc_end_date cx)),
      (''match_type'', PStr (kc_match_type cx)),
      (''clicks'', PInt 0),
      (''impressions'', PInt 0),
      (''ctr'', PInt 0),
      (''position'', PStr '''')]"

definition keyword_error_row :: "keyword_ctx \<Rightarrow> string \<Rightarrow> row" where
  "keyword_error_row cx kw =
     [(''keyword'', PStr kw),
      (''start_date'', PStr (kc_start_date cx)),
      (''end_date'', PStr (kc_end_date cx)),
      (''match_type'', PStr (kc_match_type cx)),
      (''clicks'', PStr ''''),
      (''impressions'', PStr ''''),
      (''ctr'', PStr ''''),
      (''position'', PStr '''')]"

text \<open>
  One iteration of \<open>for kw in keywords\<close>.  Only \<open>HttpError\<close> is caught; any other
  exception of the body leaves the loop and ends the run.
\<close>

definition keyword_item ::
  "sa_service \<Rightarrow> keyword_ctx \<Rightarrow> nat \<Rightarrow> string \<Rightarrow> event list \<times> (py_error + unit)" where
  "keyword_item svc cx n kw =
     (let body = keyword_request cx kw
      in case svc n body of
           SaHttpError e \<Rightarrow>
             ([Fetch body, Print (MsgHttpErrorFor kw e), WriteRow (keyword_error_row cx kw)],
              Inr ())
         | SaOtherError msg \<Rightarrow> ([Fetch body], Inl (OtherException msg))
         | SaRows rows \<Rightarrow>
             if rows = [] then ([Fetch body, WriteRow (keyword_zero_row cx kw)], Inr ())
             else
               (case keyword_aggregate rows of
                  Inl e \<Rightarrow> ([Fetch body], Inl e)
                | Inr a \<Rightarrow>
                    (case keyword_data_row cx kw a of
                       Inl e \<Rightarrow> ([Fetch body], Inl e)
                     | Inr r \<Rightarrow> ([Fetch body, WriteRow r], Inr ()))))"

fun keyword_loop ::
  "sa_service \<Rightarrow> keyword_ctx \<Rightarrow> nat \<Rightarrow> string list \<Rightarrow> event list \<times> (py_error + unit)" where
  "keyword_loop svc cx n [] = ([], Inr ())"
| "keyword_loop svc cx n (kw # rest) =
     (case keyword_item svc cx n kw of
        (ev, Inl e) \<Rightarrow> (ev, Inl e)
      | (ev, Inr u) \<Rightarrow>
          (case keyword_loop svc cx (n + 1) rest of (ev', r) \<Rightarrow> (ev @ ev', r)))"

text \<open>
  \<open>main\<close> from the check of the match type on; the prompts before it supply the
  arguments.
\<close>

definition keyword_main ::
  "sa_service \<Rightarrow> file_system \<Rightarrow> string \<Rightarrow> string \<Rightarrow> string \<Rightarrow> string \<Rightarrow> string \<Rightarrow>
   event list \<times> (py_error + unit)" where
  "keyword_main svc fs site start_date end_date keywords_file match_type =
     (if match_type \<noteq> ''equals'' \<and> match_type \<noteq> ''contains'' then ([], Inl ValueError)
      else
        case read_list fs keywords_file of
          Inl e \<Rightarrow> ([], Inl e)
        | Inr keywords \<Rightarrow>
            if keywords = [] then ([], Inl (SystemExit (PStr ''No keywords found.'')))
            else
              let cx = \<lparr>kc_site_url = site, kc_start_date = start_date,
                        kc_end_date = end_date, kc_match_type = match_type\<rparr>
              in case keyword_loop svc cx 0 keywords of
                   (ev, Inl e) \<Rightarrow> ([Print MsgSavingTo, WriteHeader keyword_fieldnames] @ ev, Inl e)
                 | (ev, Inr u) \<Rightarrow>
                     ([Print MsgSavingTo, WriteHeader keyword_fieldnames] @ ev @ [Print MsgDone],
                      Inr ()))"

section \<open>Comparison mode (page\_performance\_comparison.py)\<close>

text \<open>
  The dictionary returned by \<open>fetch_page_metrics\<close> always has the four keys
  \<open>clicks\<close>, \<open>impressions\<close>, \<open>ctr\<close> and \<open>position\<close>, each a float.
\<close>

record metrics =
  m_clicks :: real
  m_impressions :: real
  m_ctr :: real
  m_position :: real

definition page_request :: "string \<Rightarrow> string \<Rightarrow> string \<Rightarrow> string \<Rightarrow> sa_request" where
  "page_request site page_url start_date end_date =
     \<lparr>rq_site_url = site, rq_start_date = start_date, rq_end_date = end_date,
      rq_dimension = ''page'', rq_operator = ''equals'', rq_expression = page_url,
      rq_row_limit = 1\<rparr>"

text \<open>
  \<open>fetch_page_metrics\<close> makes one call (the \<open>n\<close>-th of the run) and uses the first row
  of the response; with no row it returns four zeros.  An exception of the call
  propagates to the caller.
\<close>

definition fetch_page_metrics ::
  "sa_service \<Rightarrow> nat \<Rightarrow> string \<Rightarrow> string \<Rightarrow> string \<Rightarrow> string \<Rightarrow>
   event list \<times> (raised + metrics)" where
  "fetch_page_metrics svc n site page_url start_date end_date =
     (let body = page_request site page_url start_date end_date
      in ([Fetch body],
          case svc n body of
            SaHttpError e \<Rightarrow> Inl (RaisedHttpError e)
          | SaOtherError msg \<Rightarrow> Inl (RaisedOther msg)
          | SaRows rows \<Rightarrow>
              (case rows of
                 [] \<Rightarrow> Inr \<lparr>m_clicks = 0, m_impressions = 0, m_ctr = 0, m_position = 0\<rparr>
               | r # _ \<Rightarrow>
                   Inr \<lparr>m_clicks = get_float r ''clicks'',
                        m_impressions = get_float r ''impressions'',
                        m_ctr = get_float r ''ctr'',
                        m_position = get_float r ''position''\<rparr>)))"

record comparison_ctx =
  cx_site_url :: string
  cx_cur_start_s :: string
  cx_cur_end_s :: string
  cx_prev_start_s :: string
  cx_prev_end_s :: string

definition comparison_fieldnames :: "string list" where
  "comparison_fieldnames =
     [''page_url'', ''site_url'', ''current_start'', ''current_end'', ''previous_start'',
      ''previous_end'', ''clicks_current'', ''clicks_previous'', ''clicks_change_abs'',
      ''clicks_change_pct'', ''impressions_current'', ''impressions_previous'',
      ''impressions_change_abs'', ''impressions_change_pct'', ''ctr_current'',
      ''ctr_previous'', ''position_current'', ''position_previous'']"

text \<open>The row written when both fetches of a page succeed.\<close>

definition comparison_row :: "comparison_ctx \<Rightarrow> string \<Rightarrow> metrics \<Rightarrow> metrics \<Rightarrow> row" where
  "comparison_row cx page_url cur prev =
     (let clicks_cur = m_clicks cur;
          clicks_prev = m_clicks prev;
          impr_cur = m_impressions cur;
          impr_prev = m_impressions prev;
          clicks_abs = clicks_cur - clicks_prev;
          impr_abs = impr_cur - impr_prev;
          clicks_pct = pct_change clicks_cur clicks_prev;
          impr_pct = pct_change impr_cur impr_prev
      in [(''page_url'', PStr page_url),
          (''site_url'', PStr (cx_site_url cx)),
          (''current_start'', PStr (cx_cur_start_s cx)),
          (''current_end'', PStr (cx_cur_end_s cx)),
          (''previous_start'', PStr (cx_prev_start_s cx)),
          (''previous_end'', PStr (cx_prev_end_s cx)),
          (''clicks_current'', int_cell clicks_cur),
          (''clicks_previous'', int_cell clicks_prev),
          (''clicks_change_abs'', int_cell clicks_abs),
          (''clicks_change_pct'', pct_cell clicks_pct),
          (''impressions_current'', int_cell impr_cur),
          (''impressions_previous'', int_cell impr_prev),
          (''impressions_change_abs'', int_cell impr_abs),
          (''impressions_change_pct'', pct_cell impr_pct),
          (''ctr_current'', PFloat (round_nd (m_ctr cur) 6)),
          (''ctr_previous'', PFloat (round_nd (m_ctr prev) 6)),
          (''position_current'', PFloat (round_nd (m_position cur) 2)),
          (''position_previous'', PFloat (round_nd (m_position prev) 2))])"

text \<open>The row written in the \<open>except HttpError\<close> branch.\<close>

definition comparison_error_row :: "comparison_ctx \<Rightarrow> string \<Rightarrow> row" where
  "comparison_error_row cx page_url =
     [(''page_url'', PStr page_url),
      (''site_url'', PStr (cx_site_url cx)),
      (''current_start'', PStr (cx_cur_start_s cx)),
      (''current_end'', PStr (cx_cur_end_s cx)),
      (''previous_start'', PStr (cx_prev_start_s cx)),
      (''previous_end'', PStr (cx_prev_end_s cx)),
      (''clicks_current'', PStr ''''),
      (''clicks_previous'', PStr ''''),
      (''clicks_change_abs'', PStr ''''),
      (''clicks_change_pct'', PStr ''''),
      (''impressions_current'', PStr ''''),
      (''impressions_previous'', PStr ''''),
      (''impressions_change_abs'', PStr ''''),
      (''impressions_change_pct'', PStr ''''),
      (''ctr_current'', PStr ''''),
      (''ctr_previous'', PStr ''''),
      (''position_current'', PStr ''''),
      (''position_previous'', PStr '''')]"

definition progress :: "nat \<Rightarrow> nat \<Rightarrow> event list" where
  "progress i n_urls = (if i mod 25 = 0 then [Print (MsgProcessed i n_urls)] else [])"

text \<open>
  One iteration of \<open>for i, page_url in enumerate(urls, start=1)\<close>: the events of the
  iteration, and either the number of service calls made so far or the exception that
  leaves the loop.  The second fetch is not made when the first one raises.  An
  \<open>HttpError\<close> of either fetch is caught and the row of the \<open>except\<close> branch is written;
  an exception of another class is not caught, so no row is written for the page.
\<close>

definition comparison_item ::
  "sa_service \<Rightarrow> comparison_ctx \<Rightarrow> nat \<Rightarrow> nat \<Rightarrow> nat \<Rightarrow> string \<Rightarrow>
   event list \<times> (py_error + nat)" where
  "comparison_item svc cx n i n_urls page_url =
     (case fetch_page_metrics svc n (cx_site_url cx) page_url
             (cx_cur_start_s cx) (cx_cur_end_s cx) of
        (ev1, Inl (RaisedHttpError e)) \<Rightarrow>
          (ev1 @ [Print (MsgHttpErrorFor page_url e),
                  WriteRow (comparison_error_row cx page_url)] @ progress i n_urls,
           Inr (n + 1))
      | (ev1, Inl (RaisedOther msg)) \<Rightarrow> (ev1, Inl (OtherException msg))
      | (ev1, Inr cur) \<Rightarrow>
          (case fetch_page_metrics svc (n + 1) (cx_site_url cx) page_url
                  (cx_prev_start_s cx) (cx_prev_end_s cx) of
             (ev2, Inl (RaisedHttpError e)) \<Rightarrow>
               (ev1 @ ev2 @ [Print (MsgHttpErrorFor page_url e),
                             WriteRow (comparison_error_row cx page_url)] @ progress i n_urls,
                Inr (n + 2))
           | (ev2, Inl (RaisedOther msg)) \<Rightarrow> (ev1 @ ev2, Inl (OtherException msg))
           | (ev2, Inr prev) \<Rightarrow>
               (ev1 @ ev2 @ [WriteRow (comparison_row cx page_url cur prev)] @ progress i n_urls,
                Inr (n + 2))))"

fun comparison_loop ::
  "sa_service \<Rightarrow> comparison_ctx \<Rightarrow> nat \<Rightarrow> nat \<Rightarrow> nat \<Rightarrow> string list \<Rightarrow>
   event list \<times> (py_error + unit)" where
  "comparison_loop svc cx n i n_urls [] = ([], Inr ())"
| "comparison_loop svc cx n i n_urls (page_url # rest) =
     (case comparison_item svc cx n i n_urls page_url of
        (ev, Inl e) \<Rightarrow> (ev, Inl e)
      | (ev, Inr n') \<Rightarrow>
          (case comparison_loop svc cx n' (i + 1) n_urls rest of (ev', r) \<Rightarrow> (ev @ ev', r)))"

text \<open>\<open>enforce_16_month_window\<close>, with \<open>date.today()\<close> as a parameter.\<close>

definition enforce_16_month_window ::
  "date \<Rightarrow> date \<Rightarrow> date \<Rightarrow> event list \<times> (py_error + unit)" where
  "enforce_16_month_window today cur_start prev_start =
     (case earliest_gsc_date today of
        Inl e \<Rightarrow> ([], Inl e)
      | Inr earliest \<Rightarrow>
          if cur_start < earliest \<or> prev_start < earliest
          then ([Print (MsgOutsideWindow earliest cur_start prev_start)], Inl (SystemExit (PInt 1)))
          else ([], Inr ()))"

text \<open>
  \<open>main\<close> from the computation of the previous period on.  The prompts before it supply
  the property, the two date strings (with the dates parsed from them) and the path of
  the URL list.
\<close>

definition comparison_main ::
  "sa_service \<Rightarrow> file_system \<Rightarrow> date \<Rightarrow> string \<Rightarrow> string \<Rightarrow> string \<Rightarrow> date \<Rightarrow> date \<Rightarrow>
   string \<Rightarrow> event list \<times> (py_error + unit)" where
  "comparison_main svc fs today site cur_start_s cur_end_s cur_start cur_end urls_file =
     (case compute_previous_period cur_start cur_end of
        Inl e \<Rightarrow> ([], Inl e)
      | Inr (prev_start, prev_end, days_inclusive) \<Rightarrow>
          let prev_start_s = isoformat prev_start;
              prev_end_s = isoformat prev_end
          in case enforce_16_month_window today cur_start prev_start of
               (ev0, Inl e) \<Rightarrow> (ev0, Inl e)
             | (ev0, Inr u) \<Rightarrow>
                 let ev1 = ev0 @ [Print (MsgPreviousPeriod prev_start_s prev_end_s days_inclusive)]
                 in case read_url_list fs urls_file of
                      Inl e \<Rightarrow> (ev1, Inl e)
                    | Inr urls \<Rightarrow>
                        if urls = []
                        then (ev1, Inl (SystemExit (PStr (''No URLs found in '' @ urls_file))))
                        else
                          let cx = \<lparr>cx_site_url = site, cx_cur_start_s = cur_start_s,
                                    cx_cur_end_s = cur_end_s, cx_prev_start_s = prev_start_s,
                                    cx_prev_end_s = prev_end_s\<rparr>;
                              ev2 = ev1 @ [Print (MsgComparing (length urls)),
                                           Print MsgSavingTo,
                                           WriteHeader comparison_fieldnames]
                          in case comparison_loop svc cx 0 1 (length urls) urls of
                               (ev, Inl e) \<Rightarrow> (ev2 @ ev, Inl e)
                             | (ev, Inr v) \<Rightarrow> (ev2 @ ev @ [Print MsgDone], Inr ()))"

section \<open>URL inspection batch (page\_indexing.py)\<close>

definition indexing_fieldnames :: "string list" where
  "indexing_fieldnames =
     [''inspection_url'', ''site_url'', ''verdict'', ''coverage_state'', ''indexing_state'',
      ''robots_txt_state'', ''page_fetch_state'', ''crawled_as'', ''last_crawl_time'',
      ''canonical_google'', ''canonical_user'', ''referring_urls_count'', ''error'']"

text \<open>\<open>{k: "" for k in fieldnames}\<close> and the assignment \<open>row[k] = v\<close>.\<close>

definition blank_row :: "string list \<Rightarrow> row" where
  "blank_row fieldnames = map (\<lambda>k. (k, PStr '''')) fieldnames"

definition row_set :: "string \<Rightarrow> pyval \<Rightarrow> row \<Rightarrow> row" where
  "row_set k v r = AList.update k v r"

text \<open>\<open>index_result.get(key, "")\<close>.\<close>

definition status_get :: "index_status \<Rightarrow> string \<Rightarrow> pyval" where
  "status_get s key = (case is_fields s key of None \<Rightarrow> PStr '''' | Some v \<Rightarrow> PStr v)"

definition delay_seconds :: real where
  "delay_seconds = 15 / 100"

text \<open>\<open>status in (429, 500, 503)\<close>, and \<open>min(10, 1 + (i % 5) * 1.5)\<close>.\<close>

definition is_transient :: "int option \<Rightarrow> bool" where
  "is_transient status = (status = Some 429 \<or> status = Some 500 \<or> status = Some 503)"

definition backoff_seconds :: "nat \<Rightarrow> real" where
  "backoff_seconds i = min 10 (1 + real (i mod 5) * (15 / 10))"

text \<open>The \<open>try\<close> block of an iteration on a response: the ten result columns.\<close>

definition fill_row :: "index_status option \<Rightarrow> row \<Rightarrow> row" where
  "fill_row resp r0 =
     (let index_result =
            (case resp of
               None \<Rightarrow> \<lparr>is_fields = Map.empty, is_referring_urls = None\<rparr>
             | Some s \<Rightarrow> s);
          r = row_set ''verdict'' (status_get index_result ''verdict'') r0;
          r = row_set ''coverage_state'' (status_get index_result ''coverageState'') r;
          r = row_set ''indexing_state'' (status_get index_result ''indexingState'') r;
          r = row_set ''robots_txt_state'' (status_get index_result ''robotsTxtState'') r;
          r = row_set ''page_fetch_state'' (status_get index_result ''pageFetchState'') r;
          r = row_set ''crawled_as'' (status_get index_result ''crawledAs'') r;
          r = row_set ''last_crawl_time'' (status_get index_result ''lastCrawlTime'') r;
          r = row_set ''canonical_google'' (status_get index_result ''googleCanonical'') r;
          r = row_set ''canonical_user'' (status_get index_result ''userCanonical'') r;
          refs = (case is_referring_urls index_result of None \<Rightarrow> [] | Some l \<Rightarrow> l)
      in row_set ''referring_urls_count'' (PStr (dec (length refs))) r)"

text \<open>
  One iteration of \<open>for i, u in enumerate(urls, start=1)\<close>: the call, the pause of the
  \<open>except HttpError\<close> branch when the status is 429, 500 or 503, the row, the progress
  message and the pacing pause.
\<close>

definition indexing_item ::
  "inspect_service \<Rightarrow> string \<Rightarrow> string \<Rightarrow> nat \<Rightarrow> nat \<Rightarrow> nat \<Rightarrow> string \<Rightarrow> event list" where
  "indexing_item svc site language_code n i n_urls u =
     (let r = blank_row indexing_fieldnames;
          r = row_set ''inspection_url'' (PStr u) r;
          r = row_set ''site_url'' (PStr site) r;
          body = \<lparr>iq_inspection_url = u, iq_site_url = site, iq_language_code = language_code\<rparr>
      in case (case svc n body of
                 InspectReturned resp \<Rightarrow> ([], fill_row resp r)
               | InspectHttpError e \<Rightarrow>
                   (if is_transient (status_code e) then [Sleep (backoff_seconds i)] else [],
                    row_set ''error'' (PStr (''HttpError: '' @ error_text e)) r)
               | InspectOtherError msg \<Rightarrow>
                   ([], row_set ''error'' (PStr (''Error: '' @ msg)) r)) of
           (ev, r') \<Rightarrow>
             [Inspect body] @ ev @ [WriteRow r'] @ progress i n_urls @ [Sleep delay_seconds])"

fun indexing_loop ::
  "inspect_service \<Rightarrow> string \<Rightarrow> string \<Rightarrow> nat \<Rightarrow> nat \<Rightarrow> nat \<Rightarrow> string list \<Rightarrow> event list" where
  "indexing_loop svc site language_code n i n_urls [] = []"
| "indexing_loop svc site language_code n i n_urls (u # rest) =
     indexing_item svc site language_code n i n_urls u @
     indexing_loop svc site language_code (n + 1) (i + 1) n_urls rest"

text \<open>\<open>main\<close> from the reading of the URL list on.\<close>

definition indexing_main ::
  "inspect_service \<Rightarrow> file_system \<Rightarrow> string \<Rightarrow> string \<Rightarrow> string \<Rightarrow>
   event list \<times> (py_error + unit)" where
  "indexing_main svc fs site urls_file language_code =
     (case read_urls fs urls_file of
        Inl e \<Rightarrow> ([Print MsgCouldNotReadUrls], Inl (SystemExit (PInt 1)))
      | Inr urls \<Rightarrow>
          if urls = [] then ([Print (MsgNoUrlsFound urls_file)], Inl (SystemExit (PInt 1)))
          else
            ([Print (MsgInspecting (length urls)), Print MsgSavingTo,
              WriteHeader indexing_fieldnames] @
             indexing_loop svc site language_code 0 1 (length urls) urls @ [Print MsgDone],
             Inr ()))"

section \<open>Specification-level notions\<close>

text \<open>
  "Duplicates removed keeping the first occurrence, original order preserved", in the
  words of the specification of the target list: the head of the list stays, its later
  copies go, and so on for the rest.
\<close>

function first_occurrences :: "'a list \<Rightarrow> 'a list" where
  "first_occurrences [] = []"
| "first_occurrences (x # xs) = x # first_occurrences (removeAll x xs)"
  by pat_completeness auto
termination
  by (relation "measure length") (auto simp: less_Suc_eq_le length_removeAll_less_eq)

text \<open>The lines the loader keeps: non-empty after stripping, and not a comment.\<close>

definition kept_line :: "string \<Rightarrow> bool" where
  "kept_line v = (v \<noteq> [] \<and> \<not> py_startswith v ''#'')"

text \<open>
  The columns of each report that hold the results of a fetch, as opposed to the columns
  that identify the target and the request.
\<close>

definition keyword_metric_columns :: "string list" where
  "keyword_metric_columns = [''clicks'', ''impressions'', ''ctr'', ''position'']"

definition comparison_metric_columns :: "string list" where
  "comparison_metric_columns =
     [''clicks_current'', ''clicks_previous'', ''clicks_change_abs'', ''clicks_change_pct'',
      ''impressions_current'', ''impressions_previous'', ''impressions_change_abs'',
      ''impressions_change_pct'', ''ctr_current'', ''ctr_previous'', ''position_current'',
      ''position_previous'']"

definition indexing_result_columns :: "string list" where
  "indexing_result_columns =
     [''verdict'', ''coverage_state'', ''indexing_state'', ''robots_txt_state'',
      ''page_fetch_state'', ''crawled_as'', ''last_crawl_time'', ''canonical_google'',
      ''canonical_user'', ''referring_urls_count'']"

text \<open>Every one of the given columns of the row is the empty field.\<close>

definition all_empty :: "string list \<Rightarrow> row \<Rightarrow> bool" where
  "all_empty cols r = list_all (\<lambda>k. map_of r k = Some (PStr '''')) cols"

text \<open>A row carries an error marker when it has an \<open>error\<close> column that is not empty.\<close>

definition error_marker :: "row \<Rightarrow> bool" where
  "error_marker r = (case map_of r ''error'' of Some (PStr s) \<Rightarrow> s \<noteq> [] | _ \<Rightarrow> False)"

section \<open>The change calculator\<close>

lemma map_of_comparison_row_change:
  "map_of (comparison_row cx u cur prev) ''clicks_change_abs'' =
     Some (int_cell (m_clicks cur - m_clicks prev))"
  "map_of (comparison_row cx u cur prev) ''impressions_change_abs'' =
     Some (int_cell (m_impressions cur - m_impressions prev))"
  "map_of (comparison_row cx u cur prev) ''clicks_change_pct'' =
     Some (pct_cell (pct_change (m_clicks cur) (m_clicks prev)))"
  "map_of (comparison_row cx u cur prev) ''impressions_change_pct'' =
     Some (pct_cell (pct_change (m_impressions cur) (m_impressions prev)))"
  by (simp_all add: comparison_row_def Let_def)

text \<open>
  Claim C2.  For non-negative \<open>current\<close> and \<open>previous\<close>, \<open>pct_change\<close> returns 0 when
  both are 0, returns \<open>None\<close> (written as the empty field) when only \<open>previous\<close> is 0, and
  otherwise returns \<open>(current - previous) / previous * 100\<close>; so
  \<open>pct_change 150 100 = 50\<close> and \<open>pct_change 50 100 = -50\<close>.  The absolute change
  \<open>current - previous\<close> is written to the row as an integer in every case, for clicks
  and for impressions.
\<close>

theorem pct_change_cases:
  assumes "0 \<le> current" and "0 \<le> previous"
  shows "(previous = 0 \<and> current = 0 \<longrightarrow> pct_change current previous = Some 0)
    \<and> (previous = 0 \<and> 0 < current \<longrightarrow>
          pct_change current previous = None
          \<and> pct_cell (pct_change current previous) = PStr '''')
    \<and> (previous \<noteq> 0 \<longrightarrow>
          pct_change current previous = Some ((current - previous) / previous * 100))
    \<and> pct_change 150 100 = Some 50
    \<and> pct_change 50 100 = Some (- 50)
    \<and> map_of (comparison_row cx u (cur\<lparr>m_clicks := current\<rparr>) (prev\<lparr>m_clicks := previous\<rparr>))
          ''clicks_change_abs'' = Some (PInt (py_round (current - previous)))
    \<and> map_of (comparison_row cx u (cur\<lparr>m_clicks := current\<rparr>) (prev\<lparr>m_clicks := previous\<rparr>))
          ''clicks_change_pct'' = Some (pct_cell (pct_change current previous))
    \<and> map_of (comparison_row cx u (cur\<lparr>m_impressions := current\<rparr>)
               (prev\<lparr>m_impressions := previous\<rparr>))
          ''impressions_change_abs'' = Some (PInt (py_round (current - previous)))
    \<and> map_of (comparison_row cx u (cur\<lparr>m_impressions := current\<rparr>)
               (prev\<lparr>m_impressions := previous\<rparr>))
          ''impressions_change_pct'' = Some (pct_cell (pct_change current previous))"
  using assms
  by (simp add: pct_change_def pct_cell_def map_of_comparison_row_change int_cell_def)

text \<open>
  At \<open>current = 7\<close>, \<open>previous = 0\<close>: no percentage, an empty percentage field, and the
  absolute change 7 in the row.
\<close>

theorem pct_change_cases_witness:
  "(0::real) \<le> 7 \<and> (0::real) \<le> 0
   \<and> pct_change 7 0 = None
   \<and> pct_cell (pct_change 7 0) = PStr ''''
   \<and> map_of (comparison_row
                \<lparr>cx_site_url = ''s'', cx_cur_start_s = ''a'', cx_cur_end_s = ''b'',
                 cx_prev_start_s = ''c'', cx_prev_end_s = ''d''\<rparr> ''u''
                \<lparr>m_clicks = 7, m_impressions = 20, m_ctr = 35 / 100, m_position = 3\<rparr>
                \<lparr>m_clicks = 0, m_impressions = 0, m_ctr = 0, m_position = 0\<rparr>)
        ''clicks_change_abs'' = Some (PInt 7)"
  using pct_change_cases [of 7 0
      "\<lparr>cx_site_url = ''s'', cx_cur_start_s = ''a'', cx_cur_end_s = ''b'',
        cx_prev_start_s = ''c'', cx_prev_end_s = ''d''\<rparr>" "''u''"
      "\<lparr>m_clicks = 7, m_impressions = 20, m_ctr = 35 / 100, m_position = 3\<rparr>"
      "\<lparr>m_clicks = 0, m_impressions = 0, m_ctr = 0, m_position = 0\<rparr>"]
  by (simp add: py_round_def pct_change_def pct_cell_def)

section \<open>The previous period\<close>

lemma compute_previous_period_invalid:
  "cur_end < cur_start \<Longrightarrow> compute_previous_period cur_start cur_end = Inl ValueError"
  by (simp add: compute_previous_period_def)

lemma compute_previous_period_out_of_range:
  assumes "date_valid cur_start" and "date_valid cur_end" and "cur_start \<le> cur_end"
    and "cur_start - (cur_end - cur_start + 1) < min_ordinal"
  shows "compute_previous_period cur_start cur_end = Inl OverflowError"
  using assms
  by (simp add: compute_previous_period_def date_minus_days_def date_plus_days_def
      date_valid_def min_ordinal_def max_ordinal_def Let_def)

text \<open>
  Claim C3 (as amended).  For a range with \<open>start \<le> end\<close> whose predecessor does not
  start before the first day of the calendar type (0001-01-01),
  \<open>compute_previous_period\<close> returns a range of the same inclusive length
  \<open>end - start + 1\<close> that ends the day before \<open>start\<close>: \<open>previous.end = start - 1 day\<close>,
  \<open>previous.start = previous.end - (length - 1) days\<close>, and
  \<open>previous.end + 1 day = start\<close>.
\<close>

theorem compute_previous_period_adjacent:
  assumes "date_valid cur_start" and "date_valid cur_end" and "cur_start \<le> cur_end"
    and "min_ordinal \<le> cur_start - (cur_end - cur_start + 1)"
  shows "\<exists>prev_start prev_end days.
      compute_previous_period cur_start cur_end = Inr (prev_start, prev_end, days)
      \<and> days = cur_end - cur_start + 1
      \<and> prev_end - prev_start + 1 = days
      \<and> date_minus_days cur_start 1 = Inr prev_end
      \<and> date_minus_days prev_end (days - 1) = Inr prev_start
      \<and> date_plus_days prev_end 1 = Inr cur_start
      \<and> prev_start \<le> prev_end \<and> prev_end < cur_start
      \<and> date_valid prev_start \<and> date_valid prev_end"
  using assms
  by (simp add: compute_previous_period_def date_minus_days_def date_plus_days_def
      date_valid_def min_ordinal_def max_ordinal_def Let_def)

text \<open>
  The month of March 2026 (days 739676 to 739706) is preceded by the 31 days from
  2026-01-29 to 2026-02-28.
\<close>

theorem compute_previous_period_adjacent_witness:
  "date_valid 739676 \<and> date_valid 739706 \<and> (739676::int) \<le> 739706
   \<and> min_ordinal \<le> 739676 - (739706 - 739676 + 1)
   \<and> ymd2ord 2026 3 1 = 739676 \<and> ymd2ord 2026 3 31 = 739706
   \<and> compute_previous_period 739676 739706 = Inr (739645, 739675, 31)
   \<and> isoformat 739645 = ''2026-01-29'' \<and> isoformat 739675 = ''2026-02-28''
   \<and> date_plus_days 739675 1 = Inr 739676"
  using compute_previous_period_adjacent [of 739676 739706]
  by (simp add: compute_previous_period_def date_minus_days_def date_plus_days_def
      date_valid_def min_ordinal_def max_ordinal_def Let_def ymd2ord_def days_before_year_def
      days_before_month_def DAYS_BEFORE_MONTH_def DAYS_IN_MONTH_def is_leap_def isoformat_def
      year_of_def month_of_def day_of_def ord2ymd_def zfill_def dec.simps)

text \<open>
  The claim as stated, for every range with \<open>start \<le> end\<close>, fails on the single day
  0001-01-01: the day before it is not a date, and the subtraction raises.
\<close>

theorem compute_previous_period_first_day:
  "date_valid 1 \<and> (1::int) \<le> 1 \<and> isoformat 1 = ''0001-01-01''
   \<and> compute_previous_period 1 1 = Inl OverflowError"
  by (simp add: compute_previous_period_def date_minus_days_def date_plus_days_def
      date_valid_def min_ordinal_def max_ordinal_def Let_def isoformat_def
      year_of_def month_of_def day_of_def ord2ymd_def zfill_def dec.simps
      DAYS_BEFORE_MONTH_def DAYS_IN_MONTH_def numeral_3_eq_3)

section \<open>Aggregation of the rows of a keyword\<close>

lemma accumulate_rows_sums:
  "accumulate_rows rows (c, i, w) =
     (c + (\<Sum>r\<leftarrow>rows. get_float r ''clicks''),
      i + (\<Sum>r\<leftarrow>rows. get_float r ''impressions''),
      w + (\<Sum>r\<leftarrow>rows. get_float r ''position'' * get_float r ''impressions''))"
  by (induction rows arbitrary: c i w) (simp_all add: Let_def add.assoc)

lemma keyword_aggregate_eq:
  "keyword_aggregate rows =
     (let total_clicks = (\<Sum>r\<leftarrow>rows. get_float r ''clicks'');
          total_impr = (\<Sum>r\<leftarrow>rows. get_float r ''impressions'');
          weighted_pos = (\<Sum>r\<leftarrow>rows. get_float r ''position'' * get_float r ''impressions'')
      in Inr \<lparr>agg_clicks = total_clicks, agg_impressions = total_impr,
              agg_ctr = (if 0 < total_impr then PFloat (total_clicks / total_impr) else PInt 0),
              agg_position =
                (if 0 < total_impr then PFloat (weighted_pos / total_impr) else PStr '''')\<rparr>)"
  by (simp add: keyword_aggregate_def accumulate_rows_sums py_truediv_def Let_def)

text \<open>
  An iteration of the keyword loop ends normally, or with the exception of the service
  call that is not an \<open>HttpError\<close>; its own arithmetic never raises.
\<close>

lemma keyword_item_result:
  "snd (keyword_item svc cx n kw) =
     (case svc n (keyword_request cx kw) of
        SaOtherError msg \<Rightarrow> Inl (OtherException msg)
      | _ \<Rightarrow> Inr ())"
  by (simp add: keyword_item_def keyword_aggregate_eq keyword_data_row_def Let_def
      split: sa_outcome.splits)

text \<open>
  Claim C1 (as amended).  For every non-empty list of rows whose impressions sum is
  positive, the aggregate has clicks equal to the sum of the rows' clicks, impressions
  equal to the sum of the rows' impressions, position equal to the sum of
  \<open>position * impressions\<close> divided by the sum of impressions, and ctr equal to total
  clicks divided by total impressions; the per-row \<open>ctr\<close> values play no part.  The two
  rows \<open>{clicks: 10, impressions: 100, position: 5}\<close> and
  \<open>{clicks: 5, impressions: 50, position: 2}\<close> aggregate to clicks 15, impressions 150,
  position 4.0 and ctr 0.1, and these are the values written to the row.
\<close>

theorem keyword_aggregate_weighted:
  assumes "rows \<noteq> []"
    and "0 < (\<Sum>r\<leftarrow>rows. get_float r ''impressions'')"
  shows "keyword_aggregate rows =
      Inr \<lparr>agg_clicks = (\<Sum>r\<leftarrow>rows. get_float r ''clicks''),
           agg_impressions = (\<Sum>r\<leftarrow>rows. get_float r ''impressions''),
           agg_ctr = PFloat ((\<Sum>r\<leftarrow>rows. get_float r ''clicks'') /
                             (\<Sum>r\<leftarrow>rows. get_float r ''impressions'')),
           agg_position =
             PFloat ((\<Sum>r\<leftarrow>rows. get_float r ''position'' * get_float r ''impressions'') /
                     (\<Sum>r\<leftarrow>rows. get_float r ''impressions''))\<rparr>
    \<and> keyword_aggregate (map (\<lambda>r. r(''ctr'' := v)) rows) = keyword_aggregate rows
    \<and> keyword_aggregate
         [[''clicks'' \<mapsto> 10, ''impressions'' \<mapsto> 100, ''position'' \<mapsto> 5],
          [''clicks'' \<mapsto> 5, ''impressions'' \<mapsto> 50, ''position'' \<mapsto> 2]] =
       Inr \<lparr>agg_clicks = 15, agg_impressions = 150, agg_ctr = PFloat (1 / 10),
            agg_position = PFloat 4\<rparr>
    \<and> keyword_data_row cx kw
         \<lparr>agg_clicks = 15, agg_impressions = 150, agg_ctr = PFloat (1 / 10),
          agg_position = PFloat 4\<rparr> =
       Inr [(''keyword'', PStr kw),
            (''start_date'', PStr (kc_start_date cx)),
            (''end_date'', PStr (kc_end_date cx)),
            (''match_type'', PStr (kc_match_type cx)),
            (''clicks'', PInt 15),
            (''impressions'', PInt 150),
            (''ctr'', PFloat (1 / 10)),
            (''position'', PFloat 4)]"
proof -
  have a: "keyword_aggregate (map (\<lambda>r. r(''ctr'' := v)) rows) = keyword_aggregate rows"
    by (simp add: keyword_aggregate_eq comp_def get_float_def)
  have b: "keyword_aggregate
         [[''clicks'' \<mapsto> 10, ''impressions'' \<mapsto> 100, ''position'' \<mapsto> 5],
          [''clicks'' \<mapsto> 5, ''impressions'' \<mapsto> 50, ''position'' \<mapsto> 2]] =
       Inr \<lparr>agg_clicks = 15, agg_impressions = 150, agg_ctr = PFloat (1 / 10),
            agg_position = PFloat 4\<rparr>"
    by (simp add: keyword_aggregate_eq get_float_def)
  have c: "keyword_data_row cx kw
         \<lparr>agg_clicks = 15, agg_impressions = 150, agg_ctr = PFloat (1 / 10),
          agg_position = PFloat 4\<rparr> =
       Inr [(''keyword'', PStr kw),
            (''start_date'', PStr (kc_start_date cx)),
            (''end_date'', PStr (kc_end_date cx)),
            (''match_type'', PStr (kc_match_type cx)),
            (''clicks'', PInt 15),
            (''impressions'', PInt 150),
            (''ctr'', PFloat (1 / 10)),
            (''position'', PFloat 4)]"
    by (simp add: keyword_data_row_def int_cell_def py_round_def round_nd_def)
  have d: "keyword_aggregate rows =
      Inr \<lparr>agg_clicks = (\<Sum>r\<leftarrow>rows. get_float r ''clicks''),
           agg_impressions = (\<Sum>r\<leftarrow>rows. get_float r ''impressions''),
           agg_ctr = PFloat ((\<Sum>r\<leftarrow>rows. get_float r ''clicks'') /
                             (\<Sum>r\<leftarrow>rows. get_float r ''impressions'')),
           agg_position =
             PFloat ((\<Sum>r\<leftarrow>rows. get_float r ''position'' * get_float r ''impressions'') /
                     (\<Sum>r\<leftarrow>rows. get_float r ''impressions''))\<rparr>"
    using assms by (simp add: keyword_aggregate_eq Let_def)
  show ?thesis using a b c d by blast
qed

text \<open>
  Two rows with their own \<open>ctr\<close> values 0.3 and 1/30: the aggregate ctr is 4 / 40, not
  an average of the two, and the position is \<open>(1 * 10 + 9 * 30) / 40 = 7\<close>.
\<close>

theorem keyword_aggregate_weighted_witness:
  "[[''clicks'' \<mapsto> 3, ''impressions'' \<mapsto> 10, ''position'' \<mapsto> 1, ''ctr'' \<mapsto> 3 / 10],
    [''clicks'' \<mapsto> 1, ''impressions'' \<mapsto> 30, ''position'' \<mapsto> 9, ''ctr'' \<mapsto> 1 / 30 :: real]] \<noteq> []
   \<and> 0 < (\<Sum>r\<leftarrow>[[''clicks'' \<mapsto> 3, ''impressions'' \<mapsto> 10, ''position'' \<mapsto> 1, ''ctr'' \<mapsto> 3 / 10],
      [''clicks'' \<mapsto> 1, ''impressions'' \<mapsto> 30, ''position'' \<mapsto> 9, ''ctr'' \<mapsto> 1 / 30 :: real]].
        get_float r ''impressions'')
   \<and> keyword_aggregate
       [[''clicks'' \<mapsto> 3, ''impressions'' \<mapsto> 10, ''position'' \<mapsto> 1, ''ctr'' \<mapsto> 3 / 10],
        [''clicks'' \<mapsto> 1, ''impressions'' \<mapsto> 30, ''position'' \<mapsto> 9, ''ctr'' \<mapsto> 1 / 30]] =
     Inr \<lparr>agg_clicks = 4, agg_impressions = 40, agg_ctr = PFloat (1 / 10),
          agg_position = PFloat 7\<rparr>"
  using keyword_aggregate_weighted [of
      "[[''clicks'' \<mapsto> 3, ''impressions'' \<mapsto> 10, ''position'' \<mapsto> 1, ''ctr'' \<mapsto> 3 / 10],
        [''clicks'' \<mapsto> 1, ''impressions'' \<mapsto> 30, ''position'' \<mapsto> 9, ''ctr'' \<mapsto> 1 / 30]]"]
  by (simp add: get_float_def)

text \<open>
  The claim as stated, for every non-empty list of rows, fails on a single row without
  impressions: the position of the aggregate is the empty string, not a quotient.
\<close>

theorem keyword_aggregate_no_impressions:
  "[[''clicks'' \<mapsto> 0, ''impressions'' \<mapsto> 0, ''position'' \<mapsto> 1 :: real]] \<noteq> []
   \<and> keyword_aggregate [[''clicks'' \<mapsto> 0, ''impressions'' \<mapsto> 0, ''position'' \<mapsto> 1]] =
       Inr \<lparr>agg_clicks = 0, agg_impressions = 0, agg_ctr = PInt 0, agg_position = PStr ''''\<rparr>
   \<and> agg_position
         \<lparr>agg_clicks = 0, agg_impressions = 0, agg_ctr = PInt 0, agg_position = PStr ''''\<rparr>
       \<noteq> PFloat ((\<Sum>r\<leftarrow>[[''clicks'' \<mapsto> 0, ''impressions'' \<mapsto> 0, ''position'' \<mapsto> 1 :: real]].
                     get_float r ''position'' * get_float r ''impressions'') /
                  (\<Sum>r\<leftarrow>[[''clicks'' \<mapsto> 0, ''impressions'' \<mapsto> 0, ''position'' \<mapsto> 1 :: real]].
                     get_float r ''impressions''))"
  by (simp add: keyword_aggregate_def py_truediv_def get_float_def)

text \<open>
  Claim C10.  Every division of the keyword aggregation is guarded: for a non-empty row
  set whose impressions sum to 0 the aggregate has ctr 0 and an empty position, the row
  written has \<open>ctr = 0\<close> and an empty \<open>position\<close> field, and no row set at all makes the
  aggregation or the iteration raise \<open>ZeroDivisionError\<close>.
\<close>

theorem keyword_zero_impressions_guarded:
  assumes "rows \<noteq> []"
    and "(\<Sum>r\<leftarrow>rows. get_float r ''impressions'') = 0"
  shows "keyword_aggregate rows =
      Inr \<lparr>agg_clicks = (\<Sum>r\<leftarrow>rows. get_float r ''clicks''), agg_impressions = 0,
           agg_ctr = PInt 0, agg_position = PStr ''''\<rparr>
    \<and> (svc n (keyword_request cx kw) = SaRows rows \<longrightarrow>
        keyword_item svc cx n kw =
          ([Fetch (keyword_request cx kw),
            WriteRow [(''keyword'', PStr kw),
                      (''start_date'', PStr (kc_start_date cx)),
                      (''end_date'', PStr (kc_end_date cx)),
                      (''match_type'', PStr (kc_match_type cx)),
                      (''clicks'', int_cell (\<Sum>r\<leftarrow>rows. get_float r ''clicks'')),
                      (''impressions'', PInt 0),
                      (''ctr'', PInt 0),
                      (''position'', PStr '''')]],
           Inr ()))
    \<and> keyword_aggregate rs \<noteq> Inl ZeroDivisionError
    \<and> snd (keyword_item svc' cx' n' kw') \<noteq> Inl ZeroDivisionError"
proof -
  have a: "keyword_aggregate rows =
      Inr \<lparr>agg_clicks = (\<Sum>r\<leftarrow>rows. get_float r ''clicks''), agg_impressions = 0,
           agg_ctr = PInt 0, agg_position = PStr ''''\<rparr>"
    using assms by (simp add: keyword_aggregate_eq Let_def)
  have b: "svc n (keyword_request cx kw) = SaRows rows \<longrightarrow>
        keyword_item svc cx n kw =
          ([Fetch (keyword_request cx kw),
            WriteRow [(''keyword'', PStr kw),
                      (''start_date'', PStr (kc_start_date cx)),
                      (''end_date'', PStr (kc_end_date cx)),
                      (''match_type'', PStr (kc_match_type cx)),
                      (''clicks'', int_cell (\<Sum>r\<leftarrow>rows. get_float r ''clicks'')),
                      (''impressions'', PInt 0),
                      (''ctr'', PInt 0),
                      (''position'', PStr '''')]],
           Inr ())"
    using assms(1)
    by (simp add: keyword_item_def a keyword_data_row_def Let_def int_cell_def py_round_def)
  have c: "keyword_aggregate rs \<noteq> Inl ZeroDivisionError"
    by (simp add: keyword_aggregate_eq Let_def)
  have d: "snd (keyword_item svc' cx' n' kw') \<noteq> Inl ZeroDivisionError"
    by (simp add: keyword_item_result split: sa_outcome.splits)
  show ?thesis using a b c d by blast
qed

text \<open>Two rows, one without the \<open>impressions\<close> key and one with 0 impressions.\<close>

theorem keyword_zero_impressions_guarded_witness:
  "[[''clicks'' \<mapsto> 2, ''position'' \<mapsto> 3 :: real], [''impressions'' \<mapsto> 0]] \<noteq> []
   \<and> (\<Sum>r\<leftarrow>[[''clicks'' \<mapsto> 2, ''position'' \<mapsto> 3 :: real], [''impressions'' \<mapsto> 0]].
         get_float r ''impressions'') = 0
   \<and> keyword_aggregate [[''clicks'' \<mapsto> 2, ''position'' \<mapsto> 3], [''impressions'' \<mapsto> 0]] =
       Inr \<lparr>agg_clicks = 2, agg_impressions = 0, agg_ctr = PInt 0, agg_position = PStr ''''\<rparr>
   \<and> keyword_item
         (\<lambda>n q. SaRows [[''clicks'' \<mapsto> 2, ''position'' \<mapsto> 3], [''impressions'' \<mapsto> 0]])
         \<lparr>kc_site_url = ''s'', kc_start_date = ''2026-01-01'', kc_end_date = ''2026-01-31'',
          kc_match_type = ''contains''\<rparr> 0 ''kw'' =
       ([Fetch \<lparr>rq_site_url = ''s'', rq_start_date = ''2026-01-01'',
                rq_end_date = ''2026-01-31'', rq_dimension = ''query'',
                rq_operator = ''contains'', rq_expression = ''kw'', rq_row_limit = 25000\<rparr>,
         WriteRow [(''keyword'', PStr ''kw''),
                   (''start_date'', PStr ''2026-01-01''),
                   (''end_date'', PStr ''2026-01-31''),
                   (''match_type'', PStr ''contains''),
                   (''clicks'', PInt 2),
                   (''impressions'', PInt 0),
                   (''ctr'', PInt 0),
                   (''position'', PStr '''')]],
        Inr ())"
  using keyword_zero_impressions_guarded [of
      "[[''clicks'' \<mapsto> 2, ''position'' \<mapsto> 3 :: real], [''impressions'' \<mapsto> 0]]"
      "\<lambda>n q. SaRows [[''clicks'' \<mapsto> 2, ''position'' \<mapsto> 3], [''impressions'' \<mapsto> 0]]" 0
      "\<lparr>kc_site_url = ''s'', kc_start_date = ''2026-01-01'', kc_end_date = ''2026-01-31'',
        kc_match_type = ''contains''\<rparr>" "''kw''"]
  by (simp add: get_float_def keyword_request_def int_cell_def py_round_def)

section \<open>The target list loader\<close>

lemma collect_lines_eq:
  "collect_lines lines items = items @ filter kept_line (map py_strip lines)"
  by (induction lines arbitrary: items) (auto simp: Let_def kept_line_def)

lemma removeAll_filter_seen:
  "removeAll v (filter (\<lambda>x. x \<notin> seen) vs) = filter (\<lambda>x. x \<notin> insert v seen) vs"
  by (induction vs) auto

lemma dedup_loop_eq:
  "dedup_loop vs seen out = out @ first_occurrences (filter (\<lambda>v. v \<notin> seen) vs)"
  by (induction vs arbitrary: seen out) (simp_all add: removeAll_filter_seen)

lemma set_first_occurrences: "set (first_occurrences xs) = set xs"
  by (induction xs rule: first_occurrences.induct) auto

lemma distinct_first_occurrences: "distinct (first_occurrences xs)"
  by (induction xs rule: first_occurrences.induct) (auto simp: set_first_occurrences)

lemma first_occurrences_snoc:
  "first_occurrences (xs @ [x]) =
     (if x \<in> set xs then first_occurrences xs else first_occurrences xs @ [x])"
proof (induction xs rule: first_occurrences.induct)
  case 1
  show ?case by simp
next
  case (2 y ys)
  show ?case
  proof (cases "x = y")
    case True
    then show ?thesis using 2 by simp
  next
    case False
    then show ?thesis using 2 by auto
  qed
qed

text \<open>An entry is kept exactly when it does not occur earlier in the list.\<close>

lemma first_occurrences_by_index:
  "first_occurrences xs =
     map (\<lambda>i. xs ! i) (filter (\<lambda>i. xs ! i \<notin> set (take i xs)) [0..<length xs])"
proof (induction xs rule: rev_induct)
  case Nil
  show ?case by simp
next
  case (snoc x xs)
  have a: "filter (\<lambda>i. (xs @ [x]) ! i \<notin> set (take i (xs @ [x]))) [0..<length xs] =
           filter (\<lambda>i. xs ! i \<notin> set (take i xs)) [0..<length xs]"
    by (rule filter_cong) (auto simp: nth_append)
  have b: "map (\<lambda>i. (xs @ [x]) ! i) (filter (\<lambda>i. xs ! i \<notin> set (take i xs)) [0..<length xs]) =
           map (\<lambda>i. xs ! i) (filter (\<lambda>i. xs ! i \<notin> set (take i xs)) [0..<length xs])"
    by (rule map_cong) (auto simp: nth_append)
  show ?case
    using snoc a b by (simp add: first_occurrences_snoc)
qed

text \<open>
  Claim C9.  For every file, each of the three loaders returns the lines stripped of
  surrounding whitespace, without the empty lines and the lines starting with \<open>#\<close>,
  with duplicates removed keeping the first occurrence and the order of the file
  preserved; the list \<open>["a", "a", "b", ""]\<close> loads as \<open>["a", "b"]\<close>.
\<close>

theorem read_list_first_occurrences:
  assumes "fs path = Some lines"
  shows "read_list fs path =
      Inr (first_occurrences (filter kept_line (map py_strip lines)))
    \<and> read_url_list fs path = read_list fs path
    \<and> read_urls fs path = read_list fs path
    \<and> distinct (first_occurrences (filter kept_line (map py_strip lines)))
    \<and> first_occurrences (filter kept_line (map py_strip lines)) =
        map (\<lambda>i. filter kept_line (map py_strip lines) ! i)
          (filter (\<lambda>i. filter kept_line (map py_strip lines) ! i
                        \<notin> set (take i (filter kept_line (map py_strip lines))))
             [0..<length (filter kept_line (map py_strip lines))])
    \<and> set (first_occurrences (filter kept_line (map py_strip lines))) =
        {v. v \<noteq> [] \<and> \<not> py_startswith v ''#'' \<and> v \<in> py_strip ` set lines}
    \<and> read_list [p \<mapsto> [''a'', ''a'', ''b'', '''']] p = Inr [''a'', ''b'']"
proof -
  have a: "read_list fs path = Inr (first_occurrences (filter kept_line (map py_strip lines)))"
    using assms by (simp add: read_list_def collect_lines_eq dedup_loop_eq)
  have b: "read_url_list fs path = read_list fs path" "read_urls fs path = read_list fs path"
    by (simp_all add: read_list_def read_url_list_def read_urls_def)
  have c: "set (first_occurrences (filter kept_line (map py_strip lines))) =
        {v. v \<noteq> [] \<and> \<not> py_startswith v ''#'' \<and> v \<in> py_strip ` set lines}"
    by (auto simp: set_first_occurrences kept_line_def)
  have d: "read_list [p \<mapsto> [''a'', ''a'', ''b'', '''']] p = Inr [''a'', ''b'']"
    by (simp add: read_list_def py_strip_def is_space_def py_startswith_def Let_def kept_line_def)
  have e: "first_occurrences (filter kept_line (map py_strip lines)) =
        map (\<lambda>i. filter kept_line (map py_strip lines) ! i)
          (filter (\<lambda>i. filter kept_line (map py_strip lines) ! i
                        \<notin> set (take i (filter kept_line (map py_strip lines))))
             [0..<length (filter kept_line (map py_strip lines))])"
    by (rule first_occurrences_by_index)
  show ?thesis using a b c d e distinct_first_occurrences by blast
qed

text \<open>
  A file with line ends, indentation, a comment, a blank line and a repeated entry.
\<close>

theorem read_list_first_occurrences_witness:
  "[''f'' \<mapsto> [''b\<newline>'', ''  a \<newline>'', ''# note\<newline>'', ''\<newline>'', ''b\<newline>'', ''a'']] ''f'' =
     Some [''b\<newline>'', ''  a \<newline>'', ''# note\<newline>'', ''\<newline>'', ''b\<newline>'', ''a'']
   \<and> read_list [''f'' \<mapsto> [''b\<newline>'', ''  a \<newline>'', ''# note\<newline>'', ''\<newline>'', ''b\<newline>'', ''a'']] ''f'' =
       Inr [''b'', ''a'']
   \<and> read_url_list [''f'' \<mapsto> [''b\<newline>'', ''  a \<newline>'', ''# note\<newline>'', ''\<newline>'', ''b\<newline>'', ''a'']] ''f'' =
       Inr [''b'', ''a'']"
  using read_list_first_occurrences [of
      "[''f'' \<mapsto> [''b\<newline>'', ''  a \<newline>'', ''# note\<newline>'', ''\<newline>'', ''b\<newline>'', ''a'']]" "''f''"
      "[''b\<newline>'', ''  a \<newline>'', ''# note\<newline>'', ''\<newline>'', ''b\<newline>'', ''a'']"]
  by (simp add: read_list_def py_strip_def is_space_def py_startswith_def Let_def kept_line_def)

section \<open>Targets without data\<close>

lemma comparison_row_zero:
  "comparison_row cx u
     \<lparr>m_clicks = 0, m_impressions = 0, m_ctr = 0, m_position = 0\<rparr>
     \<lparr>m_clicks = 0, m_impressions = 0, m_ctr = 0, m_position = 0\<rparr> =
   [(''page_url'', PStr u),
    (''site_url'', PStr (cx_site_url cx)),
    (''current_start'', PStr (cx_cur_start_s cx)),
    (''current_end'', PStr (cx_cur_end_s cx)),
    (''previous_start'', PStr (cx_prev_start_s cx)),
    (''previous_end'', PStr (cx_prev_end_s cx)),
    (''clicks_current'', PInt 0),
    (''clicks_previous'', PInt 0),
    (''clicks_change_abs'', PInt 0),
    (''clicks_change_pct'', PFloat 0),
    (''impressions_current'', PInt 0),
    (''impressions_previous'', PInt 0),
    (''impressions_change_abs'', PInt 0),
    (''impressions_change_pct'', PFloat 0),
    (''ctr_current'', PFloat 0),
    (''ctr_previous'', PFloat 0),
    (''position_current'', PFloat 0),
    (''position_previous'', PFloat 0)]"
  by (simp add: comparison_row_def int_cell_def pct_cell_def pct_change_def py_round_def
      round_nd_def)

text \<open>
  Claim C4 (as amended).  For a target whose query returns zero rows, the keyword script
  writes clicks 0, impressions 0, ctr 0 and an empty position field.  In comparison mode
  \<open>fetch_page_metrics\<close> returns clicks 0, impressions 0, ctr 0 and position 0.0, and for
  a page without rows in both periods the row written has 0.0 in both position fields.
\<close>

theorem zero_rows_record:
  "(svc n (keyword_request kcx kw) = SaRows [] \<longrightarrow>
      keyword_item svc kcx n kw =
        ([Fetch (keyword_request kcx kw),
          WriteRow [(''keyword'', PStr kw),
                    (''start_date'', PStr (kc_start_date kcx)),
                    (''end_date'', PStr (kc_end_date kcx)),
                    (''match_type'', PStr (kc_match_type kcx)),
                    (''clicks'', PInt 0),
                    (''impressions'', PInt 0),
                    (''ctr'', PInt 0),
                    (''position'', PStr '''')]],
         Inr ()))
   \<and> (svc n (page_request site u start_date end_date) = SaRows [] \<longrightarrow>
      fetch_page_metrics svc n site u start_date end_date =
        ([Fetch (page_request site u start_date end_date)],
         Inr \<lparr>m_clicks = 0, m_impressions = 0, m_ctr = 0, m_position = 0\<rparr>))
   \<and> (svc n (page_request (cx_site_url cx) u (cx_cur_start_s cx) (cx_cur_end_s cx)) = SaRows []
       \<and> svc (n + 1) (page_request (cx_site_url cx) u (cx_prev_start_s cx) (cx_prev_end_s cx)) =
           SaRows [] \<longrightarrow>
      rows_of (fst (comparison_item svc cx n i n_urls u)) =
        [[(''page_url'', PStr u),
          (''site_url'', PStr (cx_site_url cx)),
          (''current_start'', PStr (cx_cur_start_s cx)),
          (''current_end'', PStr (cx_cur_end_s cx)),
          (''previous_start'', PStr (cx_prev_start_s cx)),
          (''previous_end'', PStr (cx_prev_end_s cx)),
          (''clicks_current'', PInt 0),
          (''clicks_previous'', PInt 0),
          (''clicks_change_abs'', PInt 0),
          (''clicks_change_pct'', PFloat 0),
          (''impressions_current'', PInt 0),
          (''impressions_previous'', PInt 0),
          (''impressions_change_abs'', PInt 0),
          (''impressions_change_pct'', PFloat 0),
          (''ctr_current'', PFloat 0),
          (''ctr_previous'', PFloat 0),
          (''position_current'', PFloat 0),
          (''position_previous'', PFloat 0)]])"
  by (simp add: keyword_item_def keyword_zero_row_def fetch_page_metrics_def
      comparison_item_def comparison_row_zero rows_of_def progress_def Let_def)

text \<open>A keyword and a page for which the service has no rows.\<close>

theorem zero_rows_record_witness:
  "keyword_item (\<lambda>n q. SaRows [])
      \<lparr>kc_site_url = ''s'', kc_start_date = ''2026-01-01'', kc_end_date = ''2026-01-31'',
       kc_match_type = ''equals''\<rparr> 0 ''kw'' =
     ([Fetch \<lparr>rq_site_url = ''s'', rq_start_date = ''2026-01-01'',
              rq_end_date = ''2026-01-31'', rq_dimension = ''query'',
              rq_operator = ''equals'', rq_expression = ''kw'', rq_row_limit = 25000\<rparr>,
       WriteRow [(''keyword'', PStr ''kw''),
                 (''start_date'', PStr ''2026-01-01''),
                 (''end_date'', PStr ''2026-01-31''),
                 (''match_type'', PStr ''equals''),
                 (''clicks'', PInt 0),
                 (''impressions'', PInt 0),
                 (''ctr'', PInt 0),
                 (''position'', PStr '''')]],
      Inr ())
   \<and> fetch_page_metrics (\<lambda>n q. SaRows []) 0 ''s'' ''u'' ''2026-01-01'' ''2026-01-31'' =
     ([Fetch (page_request ''s'' ''u'' ''2026-01-01'' ''2026-01-31'')],
      Inr \<lparr>m_clicks = 0, m_impressions = 0, m_ctr = 0, m_position = 0\<rparr>)"
  using zero_rows_record [of "\<lambda>n q. SaRows []" 0
      "\<lparr>kc_site_url = ''s'', kc_start_date = ''2026-01-01'', kc_end_date = ''2026-01-31'',
        kc_match_type = ''equals''\<rparr>" "''kw''" "''s''" "''u''" "''2026-01-01''" "''2026-01-31''"]
  by (simp add: keyword_request_def)

text \<open>
  The claim as stated, an empty position field in both modes, fails in comparison mode:
  for a page without rows in either period the position fields of the row are 0.0.
\<close>

theorem comparison_zero_rows_position:
  "map (\<lambda>r. (map_of r ''position_current'', map_of r ''position_previous''))
     (rows_of (fst (comparison_item (\<lambda>n q. SaRows [])
        \<lparr>cx_site_url = ''s'', cx_cur_start_s = ''2026-03-01'', cx_cur_end_s = ''2026-03-31'',
         cx_prev_start_s = ''2026-01-29'', cx_prev_end_s = ''2026-02-28''\<rparr> 0 1 1 ''u''))) =
   [(Some (PFloat 0), Some (PFloat 0))]
   \<and> PFloat 0 \<noteq> PStr ''''"
  by (simp add: fetch_page_metrics_def comparison_item_def comparison_row_zero rows_of_def
      progress_def Let_def)

section \<open>The batch loops\<close>

lemma rows_of_simps [simp]:
  "rows_of [] = []"
  "rows_of (a @ b) = rows_of a @ rows_of b"
  "rows_of (WriteRow r # tr) = r # rows_of tr"
  "rows_of (Fetch q # tr) = rows_of tr"
  "rows_of (Inspect iq # tr) = rows_of tr"
  "rows_of (WriteHeader h # tr) = rows_of tr"
  "rows_of (Print msg # tr) = rows_of tr"
  "rows_of (Sleep t # tr) = rows_of tr"
  by (simp_all add: rows_of_def)

lemma sleeps_of_simps [simp]:
  "sleeps_of [] = []"
  "sleeps_of (a @ b) = sleeps_of a @ sleeps_of b"
  "sleeps_of (Sleep t # tr) = t # sleeps_of tr"
  "sleeps_of (Fetch q # tr) = sleeps_of tr"
  "sleeps_of (Inspect iq # tr) = sleeps_of tr"
  "sleeps_of (WriteHeader h # tr) = sleeps_of tr"
  "sleeps_of (Print msg # tr) = sleeps_of tr"
  "sleeps_of (WriteRow r # tr) = sleeps_of tr"
  by (simp_all add: sleeps_of_def)

lemma fetches_of_simps [simp]:
  "fetches_of [] = []"
  "fetches_of (a @ b) = fetches_of a @ fetches_of b"
  "fetches_of (Fetch q # tr) = q # fetches_of tr"
  "fetches_of (Sleep t # tr) = fetches_of tr"
  "fetches_of (Inspect iq # tr) = fetches_of tr"
  "fetches_of (WriteHeader h # tr) = fetches_of tr"
  "fetches_of (Print msg # tr) = fetches_of tr"
  "fetches_of (WriteRow r # tr) = fetches_of tr"
  by (simp_all add: fetches_of_def)

lemma progress_no_rows [simp]: "rows_of (progress i k) = []"
  by (simp add: progress_def)

lemma progress_no_sleeps [simp]: "sleeps_of (progress i k) = []"
  by (simp add: progress_def)

lemma map_of_row_set: "map_of (row_set k v r) = (map_of r)(k \<mapsto> v)"
  by (simp add: row_set_def update_conv')

text \<open>
  An iteration of the comparison loop either goes on, having written one row for its
  page and without a pause, or ends the run with the exception of one of its two calls
  that is not an \<open>HttpError\<close>, having written no row.
\<close>

lemma comparison_item_cases:
  "(\<exists>ev n' r. comparison_item svc cx n i k u = (ev, Inr n') \<and> rows_of ev = [r]
       \<and> map_of r ''page_url'' = Some (PStr u) \<and> sleeps_of ev = [])
   \<or> (\<exists>ev msg. comparison_item svc cx n i k u = (ev, Inl (OtherException msg))
       \<and> rows_of ev = [] \<and> sleeps_of ev = []
       \<and> (\<exists>m q. svc m q = SaOtherError msg))"
  by (auto simp: comparison_item_def fetch_page_metrics_def comparison_row_def
      comparison_error_row_def Let_def split: sa_outcome.splits list.splits)

lemma keyword_item_cases:
  "(\<exists>ev r. keyword_item svc cx n kw = (ev, Inr ()) \<and> rows_of ev = [r]
       \<and> map_of r ''keyword'' = Some (PStr kw) \<and> sleeps_of ev = [])
   \<or> (\<exists>ev msg. keyword_item svc cx n kw = (ev, Inl (OtherException msg))
       \<and> rows_of ev = [] \<and> sleeps_of ev = []
       \<and> (\<exists>m q. svc m q = SaOtherError msg))"
  by (auto simp: keyword_item_def keyword_aggregate_eq keyword_data_row_def
      keyword_zero_row_def keyword_error_row_def Let_def split: sa_outcome.splits)

text \<open>
  The rows of a loop are the rows of the targets it reached, in order: all of them
  when the loop completes, and a proper initial part of them when an exception ends it.
\<close>

lemma comparison_loop_rows:
  "map (\<lambda>r. map_of r ''page_url'') (rows_of (fst (comparison_loop svc cx n i k urls))) =
     map (\<lambda>u. Some (PStr u))
       (take (length (rows_of (fst (comparison_loop svc cx n i k urls)))) urls)
   \<and> (snd (comparison_loop svc cx n i k urls) = Inr () \<longrightarrow>
        length (rows_of (fst (comparison_loop svc cx n i k urls))) = length urls)
   \<and> (\<forall>e. snd (comparison_loop svc cx n i k urls) = Inl e \<longrightarrow>
        length (rows_of (fst (comparison_loop svc cx n i k urls))) < length urls
        \<and> (\<exists>m q msg. e = OtherException msg \<and> svc m q = SaOtherError msg))"
proof (induction urls arbitrary: n i)
  case Nil
  show ?case by simp
next
  case (Cons u rest)
  from comparison_item_cases [of svc cx n i k u] show ?case
  proof (elim disjE exE conjE)
    fix ev n' r
    assume item: "comparison_item svc cx n i k u = (ev, Inr n')" "rows_of ev = [r]"
      "map_of r ''page_url'' = Some (PStr u)"
    obtain ev' res where rest: "comparison_loop svc cx n' (i + 1) k rest = (ev', res)"
      by (cases "comparison_loop svc cx n' (i + 1) k rest")
    show ?thesis
      using Cons.IH [of n' "i + 1"] item rest by simp
  next
    fix ev msg m q
    assume "comparison_item svc cx n i k u = (ev, Inl (OtherException msg))"
      "rows_of ev = []" "svc m q = SaOtherError msg"
    then show ?thesis by auto
  qed
qed

lemma comparison_loop_completes:
  assumes "\<And>m q msg. svc m q \<noteq> SaOtherError msg"
  shows "snd (comparison_loop svc cx n i k urls) = Inr ()"
proof (cases "snd (comparison_loop svc cx n i k urls)")
  case (Inl e)
  then show ?thesis
    using comparison_loop_rows [of svc cx n i k urls] assms by auto
next
  case (Inr v)
  then show ?thesis by simp
qed

lemma comparison_loop_targets:
  assumes "\<And>m q msg. svc m q \<noteq> SaOtherError msg"
  shows "map (\<lambda>r. map_of r ''page_url'') (rows_of (fst (comparison_loop svc cx n i k urls))) =
     map (\<lambda>u. Some (PStr u)) urls"
  using comparison_loop_rows [of svc cx n i k urls] comparison_loop_completes [OF assms]
  by simp

lemma keyword_loop_rows:
  "map (\<lambda>r. map_of r ''keyword'') (rows_of (fst (keyword_loop svc cx n kws))) =
     map (\<lambda>u. Some (PStr u)) (take (length (rows_of (fst (keyword_loop svc cx n kws)))) kws)
   \<and> (snd (keyword_loop svc cx n kws) = Inr () \<longrightarrow>
        length (rows_of (fst (keyword_loop svc cx n kws))) = length kws)
   \<and> (\<forall>e. snd (keyword_loop svc cx n kws) = Inl e \<longrightarrow>
        length (rows_of (fst (keyword_loop svc cx n kws))) < length kws
        \<and> (\<exists>m q msg. e = OtherException msg \<and> svc m q = SaOtherError msg))"
proof (induction kws arbitrary: n)
  case Nil
  show ?case by simp
next
  case (Cons kw rest)
  from keyword_item_cases [of svc cx n kw] show ?case
  proof (elim disjE exE conjE)
    fix ev r
    assume item: "keyword_item svc cx n kw = (ev, Inr ())" "rows_of ev = [r]"
      "map_of r ''keyword'' = Some (PStr kw)"
    obtain ev' res where rest: "keyword_loop svc cx (n + 1) rest = (ev', res)"
      by (cases "keyword_loop svc cx (n + 1) rest")
    show ?thesis
      using Cons.IH [of "n + 1"] item rest by simp
  next
    fix ev msg m q
    assume "keyword_item svc cx n kw = (ev, Inl (OtherException msg))"
      "rows_of ev = []" "svc m q = SaOtherError msg"
    then show ?thesis by auto
  qed
qed

lemma keyword_loop_completes:
  assumes "\<And>m q msg. svc m q \<noteq> SaOtherError msg"
  shows "snd (keyword_loop svc cx n kws) = Inr ()"
proof (cases "snd (keyword_loop svc cx n kws)")
  case (Inl e)
  then show ?thesis
    using keyword_loop_rows [of svc cx n kws] assms by auto
next
  case (Inr v)
  then show ?thesis by simp
qed

lemma keyword_loop_targets:
  assumes "\<And>m q msg. svc m q \<noteq> SaOtherError msg"
  shows "map (\<lambda>r. map_of r ''keyword'') (rows_of (fst (keyword_loop svc cx n kws))) =
     map (\<lambda>u. Some (PStr u)) kws"
  using keyword_loop_rows [of svc cx n kws] keyword_loop_completes [OF assms]
  by simp

lemma indexing_item_rows:
  "\<exists>r. rows_of (indexing_item svc site lang n i k u) = [r]
       \<and> map_of r ''inspection_url'' = Some (PStr u)"
  by (auto simp: indexing_item_def fill_row_def map_of_row_set Let_def
      split: inspect_outcome.splits)

lemma indexing_loop_targets:
  "map (\<lambda>r. map_of r ''inspection_url'') (rows_of (indexing_loop svc site lang n i k urls)) =
     map (\<lambda>u. Some (PStr u)) urls"
proof (induction urls arbitrary: n i)
  case Nil
  show ?case by simp
next
  case (Cons u rest)
  obtain r where r: "rows_of (indexing_item svc site lang n i k u) = [r]"
      "map_of r ''inspection_url'' = Some (PStr u)"
    using indexing_item_rows [of svc site lang n i k u] by auto
  show ?case
    using Cons.IH [of "n + 1" "i + 1"] r by simp
qed




section \<open>Failed fetches\<close>

lemma comparison_loop_no_sleeps: "sleeps_of (fst (comparison_loop svc cx n i k urls)) = []"
proof (induction urls arbitrary: n i)
  case Nil
  show ?case by simp
next
  case (Cons u rest)
  from comparison_item_cases [of svc cx n i k u] show ?case
  proof (elim disjE exE conjE)
    fix ev n' r
    assume item: "comparison_item svc cx n i k u = (ev, Inr n')" "sleeps_of ev = []"
    obtain ev' res where rest: "comparison_loop svc cx n' (i + 1) k rest = (ev', res)"
      by (cases "comparison_loop svc cx n' (i + 1) k rest")
    show ?thesis
      using Cons.IH [of n' "i + 1"] item rest by simp
  next
    fix ev msg
    assume "comparison_item svc cx n i k u = (ev, Inl (OtherException msg))"
      "sleeps_of ev = []"
    then show ?thesis by simp
  qed
qed

lemma keyword_loop_no_sleeps: "sleeps_of (fst (keyword_loop svc cx n kws)) = []"
proof (induction kws arbitrary: n)
  case Nil
  show ?case by simp
next
  case (Cons kw rest)
  from keyword_item_cases [of svc cx n kw] show ?case
  proof (elim disjE exE conjE)
    fix ev r
    assume item: "keyword_item svc cx n kw = (ev, Inr ())" "sleeps_of ev = []"
    obtain ev' res where rest: "keyword_loop svc cx (n + 1) rest = (ev', res)"
      by (cases "keyword_loop svc cx (n + 1) rest")
    show ?thesis
      using Cons.IH [of "n + 1"] item rest by simp
  next
    fix ev msg
    assume "keyword_item svc cx n kw = (ev, Inl (OtherException msg))"
      "sleeps_of ev = []"
    then show ?thesis by simp
  qed
qed

text \<open>
  Claim C7 (as amended).  For every target whose fetch fails with \<open>HttpError\<close>, the row
  written has all metric fields empty and the loop goes on with the next target.  In
  the URL inspection batch the row also has its \<open>error\<close> column set to the text of the
  error.  In comparison mode and in keyword mode the row has no error column: the
  error is printed to the console only.
\<close>

theorem failed_fetch_row:
  "(svc n (page_request (cx_site_url cx) u (cx_cur_start_s cx) (cx_cur_end_s cx)) =
      SaHttpError e \<longrightarrow>
     comparison_item svc cx n i k u =
       ([Fetch (page_request (cx_site_url cx) u (cx_cur_start_s cx) (cx_cur_end_s cx)),
         Print (MsgHttpErrorFor u e),
         WriteRow (comparison_error_row cx u)] @ progress i k,
        Inr (n + 1)))
   \<and> (svc n (page_request (cx_site_url cx) u (cx_cur_start_s cx) (cx_cur_end_s cx)) =
        SaRows rows
      \<and> svc (n + 1) (page_request (cx_site_url cx) u (cx_prev_start_s cx) (cx_prev_end_s cx)) =
        SaHttpError e \<longrightarrow>
     comparison_item svc cx n i k u =
       ([Fetch (page_request (cx_site_url cx) u (cx_cur_start_s cx) (cx_cur_end_s cx)),
         Fetch (page_request (cx_site_url cx) u (cx_prev_start_s cx) (cx_prev_end_s cx)),
         Print (MsgHttpErrorFor u e),
         WriteRow (comparison_error_row cx u)] @ progress i k,
        Inr (n + 2)))
   \<and> all_empty comparison_metric_columns (comparison_error_row cx u)
   \<and> \<not> error_marker (comparison_error_row cx u)
   \<and> map fst (comparison_error_row cx u) = comparison_fieldnames
   \<and> (comparison_item svc cx n i k u = (ev, Inr n') \<longrightarrow>
       comparison_loop svc cx n i k (u # rest) =
         (ev @ fst (comparison_loop svc cx n' (i + 1) k rest),
          snd (comparison_loop svc cx n' (i + 1) k rest)))
   \<and> (keyword_item svc kcx n u = (kev, Inr ()) \<longrightarrow>
       keyword_loop svc kcx n (u # rest) =
         (kev @ fst (keyword_loop svc kcx (n + 1) rest),
          snd (keyword_loop svc kcx (n + 1) rest)))
   \<and> (svc n (keyword_request kcx u) = SaHttpError e \<longrightarrow>
       keyword_item svc kcx n u =
         ([Fetch (keyword_request kcx u), Print (MsgHttpErrorFor u e),
           WriteRow (keyword_error_row kcx u)],
          Inr ()))
   \<and> all_empty keyword_metric_columns (keyword_error_row kcx u)
   \<and> \<not> error_marker (keyword_error_row kcx u)
   \<and> (isvc n \<lparr>iq_inspection_url = u, iq_site_url = site, iq_language_code = lang\<rparr> =
        InspectHttpError e \<longrightarrow>
       rows_of (indexing_item isvc site lang n i k u) =
         [[(''inspection_url'', PStr u),
           (''site_url'', PStr site),
           (''verdict'', PStr ''''),
           (''coverage_state'', PStr ''''),
           (''indexing_state'', PStr ''''),
           (''robots_txt_state'', PStr ''''),
           (''page_fetch_state'', PStr ''''),
           (''crawled_as'', PStr ''''),
           (''last_crawl_time'', PStr ''''),
           (''canonical_google'', PStr ''''),
           (''canonical_user'', PStr ''''),
           (''referring_urls_count'', PStr ''''),
           (''error'', PStr (''HttpError: '' @ error_text e))]]
       \<and> list_all (all_empty indexing_result_columns)
           (rows_of (indexing_item isvc site lang n i k u))
       \<and> list_all error_marker (rows_of (indexing_item isvc site lang n i k u)))
   \<and> indexing_loop isvc site lang n i k (u # rest) =
       indexing_item isvc site lang n i k u @
       indexing_loop isvc site lang (n + 1) (i + 1) k rest"
proof -
  have a: "svc n (page_request (cx_site_url cx) u (cx_cur_start_s cx) (cx_cur_end_s cx)) =
      SaHttpError e \<longrightarrow>
     comparison_item svc cx n i k u =
       ([Fetch (page_request (cx_site_url cx) u (cx_cur_start_s cx) (cx_cur_end_s cx)),
         Print (MsgHttpErrorFor u e),
         WriteRow (comparison_error_row cx u)] @ progress i k,
        Inr (n + 1))"
    by (simp add: comparison_item_def fetch_page_metrics_def Let_def)
  have b: "svc n (page_request (cx_site_url cx) u (cx_cur_start_s cx) (cx_cur_end_s cx)) =
        SaRows rows
      \<and> svc (n + 1) (page_request (cx_site_url cx) u (cx_prev_start_s cx) (cx_prev_end_s cx)) =
        SaHttpError e \<longrightarrow>
     comparison_item svc cx n i k u =
       ([Fetch (page_request (cx_site_url cx) u (cx_cur_start_s cx) (cx_cur_end_s cx)),
         Fetch (page_request (cx_site_url cx) u (cx_prev_start_s cx) (cx_prev_end_s cx)),
         Print (MsgHttpErrorFor u e),
         WriteRow (comparison_error_row cx u)] @ progress i k,
        Inr (n + 2))"
    by (simp add: comparison_item_def fetch_page_metrics_def Let_def split: list.splits)
  have c: "all_empty comparison_metric_columns (comparison_error_row cx u)"
    "\<not> error_marker (comparison_error_row cx u)"
    "map fst (comparison_error_row cx u) = comparison_fieldnames"
    by (simp_all add: all_empty_def comparison_metric_columns_def comparison_error_row_def
        error_marker_def comparison_fieldnames_def)
  have d: "comparison_item svc cx n i k u = (ev, Inr n') \<longrightarrow>
       comparison_loop svc cx n i k (u # rest) =
         (ev @ fst (comparison_loop svc cx n' (i + 1) k rest),
          snd (comparison_loop svc cx n' (i + 1) k rest))"
    "keyword_item svc kcx n u = (kev, Inr ()) \<longrightarrow>
       keyword_loop svc kcx n (u # rest) =
         (kev @ fst (keyword_loop svc kcx (n + 1) rest),
          snd (keyword_loop svc kcx (n + 1) rest))"
    by (simp_all add: case_prod_beta)
  have f: "svc n (keyword_request kcx u) = SaHttpError e \<longrightarrow>
       keyword_item svc kcx n u =
         ([Fetch (keyword_request kcx u), Print (MsgHttpErrorFor u e),
           WriteRow (keyword_error_row kcx u)],
          Inr ())"
    by (simp add: keyword_item_def Let_def)
  have g: "all_empty keyword_metric_columns (keyword_error_row kcx u)"
    "\<not> error_marker (keyword_error_row kcx u)"
    by (simp_all add: all_empty_def keyword_metric_columns_def keyword_error_row_def
        error_marker_def)
  have h: "isvc n \<lparr>iq_inspection_url = u, iq_site_url = site, iq_language_code = lang\<rparr> =
        InspectHttpError e \<longrightarrow>
       rows_of (indexing_item isvc site lang n i k u) =
         [[(''inspection_url'', PStr u),
           (''site_url'', PStr site),
           (''verdict'', PStr ''''),
           (''coverage_state'', PStr ''''),
           (''indexing_state'', PStr ''''),
           (''robots_txt_state'', PStr ''''),
           (''page_fetch_state'', PStr ''''),
           (''crawled_as'', PStr ''''),
           (''last_crawl_time'', PStr ''''),
           (''canonical_google'', PStr ''''),
           (''canonical_user'', PStr ''''),
           (''referring_urls_count'', PStr ''''),
           (''error'', PStr (''HttpError: '' @ error_text e))]]
       \<and> list_all (all_empty indexing_result_columns)
           (rows_of (indexing_item isvc site lang n i k u))
       \<and> list_all error_marker (rows_of (indexing_item isvc site lang n i k u))"
    by (simp add: indexing_item_def Let_def blank_row_def indexing_fieldnames_def row_set_def
        all_empty_def indexing_result_columns_def error_marker_def)
  have j: "indexing_loop isvc site lang n i k (u # rest) =
       indexing_item isvc site lang n i k u @
       indexing_loop isvc site lang (n + 1) (i + 1) k rest"
    by simp
  show ?thesis using a b c d f g h j by blast
qed

text \<open>
  A rate-limited page in each script: the comparison row has empty metric fields, the
  inspection row has them too and carries the error text.
\<close>

theorem failed_fetch_row_witness:
  "comparison_item
      (\<lambda>n q. SaHttpError \<lparr>status_code = Some 429, error_text = ''quota''\<rparr>)
      \<lparr>cx_site_url = ''s'', cx_cur_start_s = ''2026-03-01'', cx_cur_end_s = ''2026-03-31'',
       cx_prev_start_s = ''2026-01-29'', cx_prev_end_s = ''2026-02-28''\<rparr> 0 1 2 ''u'' =
     ([Fetch (page_request ''s'' ''u'' ''2026-03-01'' ''2026-03-31''),
       Print (MsgHttpErrorFor ''u'' \<lparr>status_code = Some 429, error_text = ''quota''\<rparr>),
       WriteRow (comparison_error_row
          \<lparr>cx_site_url = ''s'', cx_cur_start_s = ''2026-03-01'', cx_cur_end_s = ''2026-03-31'',
           cx_prev_start_s = ''2026-01-29'', cx_prev_end_s = ''2026-02-28''\<rparr> ''u'')],
      Inr 1)
   \<and> map (\<lambda>r. map_of r ''error'')
       (rows_of (indexing_item
          (\<lambda>n q. InspectHttpError \<lparr>status_code = Some 429, error_text = ''quota''\<rparr>)
          ''s'' ''en-US'' 0 1 2 ''u'')) =
     [Some (PStr ''HttpError: quota'')]"
  using failed_fetch_row [where
      svc = "\<lambda>n q. SaHttpError \<lparr>status_code = Some 429, error_text = ''quota''\<rparr>"
      and n = 0
      and cx = "\<lparr>cx_site_url = ''s'', cx_cur_start_s = ''2026-03-01'',
        cx_cur_end_s = ''2026-03-31'', cx_prev_start_s = ''2026-01-29'',
        cx_prev_end_s = ''2026-02-28''\<rparr>"
      and u = "''u''"
      and e = "\<lparr>status_code = Some 429, error_text = ''quota''\<rparr>"
      and i = 1 and k = 2
      and isvc = "\<lambda>n q. InspectHttpError \<lparr>status_code = Some 429, error_text = ''quota''\<rparr>"
      and site = "''s''" and lang = "''en-US''"]
  by (simp add: progress_def)

text \<open>
  The claim as stated, an error marker in the row of every failed fetch, fails in
  comparison mode: the row of a page whose fetch raised has the six identifying fields
  and twelve empty ones, and no field that records the error.
\<close>

theorem comparison_failed_fetch_unmarked:
  "rows_of (fst (comparison_item
      (\<lambda>n q. SaHttpError \<lparr>status_code = Some 503, error_text = ''unavailable''\<rparr>)
      \<lparr>cx_site_url = ''s'', cx_cur_start_s = ''2026-03-01'', cx_cur_end_s = ''2026-03-31'',
       cx_prev_start_s = ''2026-01-29'', cx_prev_end_s = ''2026-02-28''\<rparr> 0 1 2 ''u'')) =
     [[(''page_url'', PStr ''u''),
       (''site_url'', PStr ''s''),
       (''current_start'', PStr ''2026-03-01''),
       (''current_end'', PStr ''2026-03-31''),
       (''previous_start'', PStr ''2026-01-29''),
       (''previous_end'', PStr ''2026-02-28''),
       (''clicks_current'', PStr ''''),
       (''clicks_previous'', PStr ''''),
       (''clicks_change_abs'', PStr ''''),
       (''clicks_change_pct'', PStr ''''),
       (''impressions_current'', PStr ''''),
       (''impressions_previous'', PStr ''''),
       (''impressions_change_abs'', PStr ''''),
       (''impressions_change_pct'', PStr ''''),
       (''ctr_current'', PStr ''''),
       (''ctr_previous'', PStr ''''),
       (''position_current'', PStr ''''),
       (''position_previous'', PStr '''')]]
   \<and> \<not> list_all error_marker (rows_of (fst (comparison_item
      (\<lambda>n q. SaHttpError \<lparr>status_code = Some 503, error_text = ''unavailable''\<rparr>)
      \<lparr>cx_site_url = ''s'', cx_cur_start_s = ''2026-03-01'', cx_cur_end_s = ''2026-03-31'',
       cx_prev_start_s = ''2026-01-29'', cx_prev_end_s = ''2026-02-28''\<rparr> 0 1 2 ''u'')))"
  by (simp add: comparison_item_def fetch_page_metrics_def comparison_error_row_def
      progress_def error_marker_def Let_def)

section \<open>Pacing and backoff\<close>

lemma backoff_seconds_bounds: "1 \<le> backoff_seconds i \<and> backoff_seconds i \<le> 7"
proof -
  have "i mod 5 \<le> 4" by simp
  then have "real (i mod 5) \<le> 4" by linarith
  then show ?thesis by (simp add: backoff_seconds_def)
qed

text \<open>
  Claim C8 (as amended).  In the URL inspection batch every iteration ends with the
  fixed pacing pause of 0.15 seconds, whatever the outcome; an \<open>HttpError\<close> with status
  429, 500 or 503 adds exactly one backoff pause of at most 7 seconds, taken before the
  row is written and before the next target is inspected; any other outcome adds none.
  The comparison loop and the keyword loop never pause.
\<close>

theorem pacing_and_backoff:
  "(isvc n \<lparr>iq_inspection_url = u, iq_site_url = site, iq_language_code = lang\<rparr> =
      InspectHttpError e \<and> is_transient (status_code e) \<longrightarrow>
     indexing_item isvc site lang n i k u =
       [Inspect \<lparr>iq_inspection_url = u, iq_site_url = site, iq_language_code = lang\<rparr>,
        Sleep (backoff_seconds i)] @
       map WriteRow (rows_of (indexing_item isvc site lang n i k u)) @
       progress i k @ [Sleep delay_seconds]
     \<and> sleeps_of (indexing_item isvc site lang n i k u) = [backoff_seconds i, delay_seconds])
   \<and> ((\<forall>e. isvc n \<lparr>iq_inspection_url = u, iq_site_url = site, iq_language_code = lang\<rparr> =
           InspectHttpError e \<longrightarrow> \<not> is_transient (status_code e)) \<longrightarrow>
     indexing_item isvc site lang n i k u =
       [Inspect \<lparr>iq_inspection_url = u, iq_site_url = site, iq_language_code = lang\<rparr>] @
       map WriteRow (rows_of (indexing_item isvc site lang n i k u)) @
       progress i k @ [Sleep delay_seconds]
     \<and> sleeps_of (indexing_item isvc site lang n i k u) = [delay_seconds])
   \<and> length (rows_of (indexing_item isvc site lang n i k u)) = 1
   \<and> is_transient status = (status \<in> {Some 429, Some 500, Some 503})
   \<and> 1 \<le> backoff_seconds i \<and> backoff_seconds i \<le> 7
   \<and> delay_seconds = 15 / 100
   \<and> indexing_loop isvc site lang n i k (u # rest) =
       indexing_item isvc site lang n i k u @
       indexing_loop isvc site lang (n + 1) (i + 1) k rest
   \<and> sleeps_of (fst (comparison_loop svc cx n i k urls)) = []
   \<and> sleeps_of (fst (keyword_loop svc kcx n urls)) = []"
proof -
  have a: "isvc n \<lparr>iq_inspection_url = u, iq_site_url = site, iq_language_code = lang\<rparr> =
      InspectHttpError e \<and> is_transient (status_code e) \<longrightarrow>
     indexing_item isvc site lang n i k u =
       [Inspect \<lparr>iq_inspection_url = u, iq_site_url = site, iq_language_code = lang\<rparr>,
        Sleep (backoff_seconds i)] @
       map WriteRow (rows_of (indexing_item isvc site lang n i k u)) @
       progress i k @ [Sleep delay_seconds]
     \<and> sleeps_of (indexing_item isvc site lang n i k u) = [backoff_seconds i, delay_seconds]"
    by (simp add: indexing_item_def Let_def)
  have b: "(\<forall>e. isvc n \<lparr>iq_inspection_url = u, iq_site_url = site, iq_language_code = lang\<rparr> =
           InspectHttpError e \<longrightarrow> \<not> is_transient (status_code e)) \<longrightarrow>
     indexing_item isvc site lang n i k u =
       [Inspect \<lparr>iq_inspection_url = u, iq_site_url = site, iq_language_code = lang\<rparr>] @
       map WriteRow (rows_of (indexing_item isvc site lang n i k u)) @
       progress i k @ [Sleep delay_seconds]
     \<and> sleeps_of (indexing_item isvc site lang n i k u) = [delay_seconds]"
    by (simp add: indexing_item_def Let_def split: inspect_outcome.splits)
  have c: "length (rows_of (indexing_item isvc site lang n i k u)) = 1"
    using indexing_item_rows [of isvc site lang n i k u] by auto
  have d: "is_transient status = (status \<in> {Some 429, Some 500, Some 503})"
    by (auto simp: is_transient_def)
  have f: "indexing_loop isvc site lang n i k (u # rest) =
       indexing_item isvc site lang n i k u @
       indexing_loop isvc site lang (n + 1) (i + 1) k rest"
    by simp
  have g: "delay_seconds = 15 / 100"
    by (simp add: delay_seconds_def)
  show ?thesis
    using a b c d f g backoff_seconds_bounds [of i] comparison_loop_no_sleeps
      keyword_loop_no_sleeps
    by blast
qed

text \<open>
  Two URLs, the first rate-limited and the second inspected without error: a backoff of
  2.5 seconds and the pacing pause for the first, the pacing pause alone for the second.
\<close>

theorem pacing_and_backoff_witness:
  "indexing_loop
      (\<lambda>n q. if n = 0 then InspectHttpError \<lparr>status_code = Some 429, error_text = ''quota''\<rparr>
              else InspectReturned None)
      ''s'' ''en-US'' 0 1 2 [''a'', ''b''] =
     [Inspect \<lparr>iq_inspection_url = ''a'', iq_site_url = ''s'', iq_language_code = ''en-US''\<rparr>,
      Sleep (5 / 2),
      WriteRow [(''inspection_url'', PStr ''a''), (''site_url'', PStr ''s''),
                (''verdict'', PStr ''''), (''coverage_state'', PStr ''''),
                (''indexing_state'', PStr ''''), (''robots_txt_state'', PStr ''''),
                (''page_fetch_state'', PStr ''''), (''crawled_as'', PStr ''''),
                (''last_crawl_time'', PStr ''''), (''canonical_google'', PStr ''''),
                (''canonical_user'', PStr ''''), (''referring_urls_count'', PStr ''''),
                (''error'', PStr ''HttpError: quota'')],
      Sleep (15 / 100),
      Inspect \<lparr>iq_inspection_url = ''b'', iq_site_url = ''s'', iq_language_code = ''en-US''\<rparr>,
      WriteRow [(''inspection_url'', PStr ''b''), (''site_url'', PStr ''s''),
                (''verdict'', PStr ''''), (''coverage_state'', PStr ''''),
                (''indexing_state'', PStr ''''), (''robots_txt_state'', PStr ''''),
                (''page_fetch_state'', PStr ''''), (''crawled_as'', PStr ''''),
                (''last_crawl_time'', PStr ''''), (''canonical_google'', PStr ''''),
                (''canonical_user'', PStr ''''), (''referring_urls_count'', PStr ''0''),
                (''error'', PStr '''')],
      Sleep (15 / 100)]"
  using pacing_and_backoff [of
      "\<lambda>n q. if n = 0 then InspectHttpError \<lparr>status_code = Some 429, error_text = ''quota''\<rparr>
              else InspectReturned None"
      0 "''a''" "''s''" "''en-US''" "\<lparr>status_code = Some 429, error_text = ''quota''\<rparr>" 1 2]
  by (simp add: indexing_item_def Let_def blank_row_def indexing_fieldnames_def row_set_def
      is_transient_def backoff_seconds_def delay_seconds_def progress_def fill_row_def
      status_get_def dec.simps)

text \<open>
  The claim as stated, a pacing pause after every item and a backoff after a transient
  failure, fails in comparison mode: two pages that are both rate-limited are processed
  without any pause.
\<close>

theorem comparison_never_sleeps:
  "sleeps_of (fst (comparison_loop
      (\<lambda>n q. SaHttpError \<lparr>status_code = Some 429, error_text = ''quota''\<rparr>)
      \<lparr>cx_site_url = ''s'', cx_cur_start_s = ''2026-03-01'', cx_cur_end_s = ''2026-03-31'',
       cx_prev_start_s = ''2026-01-29'', cx_prev_end_s = ''2026-02-28''\<rparr>
      0 1 2 [''a'', ''b''])) = []
   \<and> fetches_of (fst (comparison_loop
      (\<lambda>n q. SaHttpError \<lparr>status_code = Some 429, error_text = ''quota''\<rparr>)
      \<lparr>cx_site_url = ''s'', cx_cur_start_s = ''2026-03-01'', cx_cur_end_s = ''2026-03-31'',
       cx_prev_start_s = ''2026-01-29'', cx_prev_end_s = ''2026-02-28''\<rparr>
      0 1 2 [''a'', ''b''])) =
     [page_request ''s'' ''a'' ''2026-03-01'' ''2026-03-31'',
      page_request ''s'' ''b'' ''2026-03-01'' ''2026-03-31'']"
  by (simp add: comparison_item_def fetch_page_metrics_def progress_def Let_def)

section \<open>The retention window\<close>

lemma subtract_months_loop_pos: "0 < m \<Longrightarrow> subtract_months_loop y m = (y, m)"
  by (simp add: subtract_months_loop.simps)

lemma subtract_months_loop_16:
  assumes "1 \<le> mo" and "mo \<le> 12"
  shows "subtract_months_loop y (mo - 16) =
     (if mo \<le> 4 then (y - 2, mo + 8) else (y - 1, mo - 4))"
proof -
  have a: "subtract_months_loop y (mo - 16) = subtract_months_loop (y - 1) (mo - 4)"
    using assms by (subst subtract_months_loop.simps) simp
  show ?thesis
  proof (cases "mo \<le> 4")
    case True
    have "subtract_months_loop (y - 1) (mo - 4) = subtract_months_loop (y - 2) (mo + 8)"
      using True by (subst subtract_months_loop.simps) (simp add: add.commute)
    with a True assms show ?thesis by (simp add: subtract_months_loop_pos)
  next
    case False
    with a show ?thesis by (simp add: subtract_months_loop_pos)
  qed
qed

text \<open>The month of every date lies between 1 and 12.\<close>

lemma month_of_range: "1 \<le> month_of d \<and> month_of d \<le> 12"
proof -
  define r where "r = (d - 1) mod 146097 mod 36524 mod 1461 mod 365"
  define m where "m = (r + 50) div 32"
  define leap where "leap = ((d - 1) mod 146097 mod 36524 mod 1461 div 365 = 3 \<and>
     ((d - 1) mod 146097 mod 36524 div 1461 \<noteq> 24 \<or> (d - 1) mod 146097 div 36524 = 3))"
  define p where "p = DAYS_BEFORE_MONTH ! nat m + (if 2 < m \<and> leap then 1 else 0)"
  have r: "0 \<le> r" "r < 365" by (simp_all add: r_def)
  have m: "1 \<le> m" "m \<le> 12" using r by (simp_all add: m_def)
  have p1: "m = 1 \<Longrightarrow> p = 0" by (simp add: p_def DAYS_BEFORE_MONTH_def)
  have pick: "1 \<le> (if r < p then m - 1 else m) \<and> (if r < p then m - 1 else m) \<le> 12"
    using m r p1 by (cases "m = 1") auto
  have eq: "month_of d =
      (if (d - 1) mod 146097 mod 36524 mod 1461 div 365 = 4 \<or> (d - 1) mod 146097 div 36524 = 4
       then 12 else (if r < p then m - 1 else m))"
    unfolding month_of_def ord2ymd_def Let_def p_def m_def r_def leap_def
    by (simp only: fst_conv snd_conv if_distrib [of fst] if_distrib [of snd] cong: if_cong)
  show ?thesis unfolding eq using pick by simp
qed

lemma monthrange_ndays_eq:
  "1 \<le> m \<Longrightarrow> m \<le> 12 \<Longrightarrow> monthrange_ndays y m = Inr (days_in_month y m)"
  by (simp add: monthrange_ndays_def days_in_month_def DAYS_IN_MONTH_def)

text \<open>
  Sixteen months before a date of month 1 to 4 is month + 8 two years earlier, and
  otherwise month - 4 of the year before; the day is the smaller of the day of the date
  and the last day of that month.
\<close>

lemma earliest_gsc_date_eq:
  "earliest_gsc_date today =
     (let y = (if month_of today \<le> 4 then year_of today - 2 else year_of today - 1);
          m = (if month_of today \<le> 4 then month_of today + 8 else month_of today - 4)
      in mk_date y m (min (day_of today) (days_in_month y m)))"
  using month_of_range [of today]
  by (simp add: earliest_gsc_date_def subtract_months_def subtract_months_loop_16
      monthrange_ndays_eq Let_def)

lemma comparison_main_rejected:
  assumes "compute_previous_period cur_start cur_end = Inr (prev_start, prev_end, days)"
    and "enforce_16_month_window today cur_start prev_start = (ev, Inl e)"
  shows "comparison_main svc fs today site cs ce cur_start cur_end urls_file = (ev, Inl e)"
  using assms by (simp add: comparison_main_def Let_def)

lemma comparison_loop_result:
  "snd (comparison_loop svc cx n i k urls) = Inr ()
   \<or> (\<exists>msg. snd (comparison_loop svc cx n i k urls) = Inl (OtherException msg))"
  using comparison_loop_rows [of svc cx n i k urls]
  by (cases "snd (comparison_loop svc cx n i k urls)") auto

lemma comparison_main_accepted:
  assumes "compute_previous_period cur_start cur_end = Inr (prev_start, prev_end, days)"
    and "enforce_16_month_window today cur_start prev_start = ([], Inr ())"
  shows "snd (comparison_main svc fs today site cs ce cur_start cur_end urls_file) \<noteq>
           Inl (SystemExit (PInt 1))
    \<and> (read_url_list fs urls_file = Inr urls \<and> urls \<noteq> [] \<longrightarrow>
        snd (comparison_main svc fs today site cs ce cur_start cur_end urls_file) =
          snd (comparison_loop svc
                 \<lparr>cx_site_url = site, cx_cur_start_s = cs, cx_cur_end_s = ce,
                  cx_prev_start_s = isoformat prev_start,
                  cx_prev_end_s = isoformat prev_end\<rparr> 0 1 (length urls) urls)
        \<and> rows_of (fst (comparison_main svc fs today site cs ce cur_start cur_end urls_file)) =
          rows_of (fst (comparison_loop svc
                 \<lparr>cx_site_url = site, cx_cur_start_s = cs, cx_cur_end_s = ce,
                  cx_prev_start_s = isoformat prev_start,
                  cx_prev_end_s = isoformat prev_end\<rparr> 0 1 (length urls) urls))
        \<and> ((\<forall>m q msg. svc m q \<noteq> SaOtherError msg) \<longrightarrow>
            snd (comparison_main svc fs today site cs ce cur_start cur_end urls_file) = Inr ()
            \<and> map (\<lambda>r. map_of r ''page_url'')
                (rows_of (fst (comparison_main svc fs today site cs ce cur_start cur_end
                   urls_file))) =
              map (\<lambda>u. Some (PStr u)) urls))"
proof -
  define cx where "cx = \<lparr>cx_site_url = site, cx_cur_start_s = cs, cx_cur_end_s = ce,
      cx_prev_start_s = isoformat prev_start, cx_prev_end_s = isoformat prev_end\<rparr>"
  have a: "snd (comparison_main svc fs today site cs ce cur_start cur_end urls_file) \<noteq>
           Inl (SystemExit (PInt 1))"
  proof (cases "read_url_list fs urls_file")
    case (Inl e)
    then show ?thesis
      using assms by (auto simp: comparison_main_def Let_def read_url_list_def
          split: option.splits)
  next
    case (Inr us)
    obtain ev res where l: "comparison_loop svc cx 0 1 (length us) us = (ev, res)"
      by (cases "comparison_loop svc cx 0 1 (length us) us")
    have "res = Inr () \<or> (\<exists>msg. res = Inl (OtherException msg))"
      using comparison_loop_result [of svc cx 0 1 "length us" us] l by simp
    then show ?thesis
      using assms Inr l
      by (auto simp: comparison_main_def Let_def cx_def [symmetric])
  qed
  have b: "read_url_list fs urls_file = Inr urls \<and> urls \<noteq> [] \<longrightarrow>
        snd (comparison_main svc fs today site cs ce cur_start cur_end urls_file) =
          snd (comparison_loop svc cx 0 1 (length urls) urls)
        \<and> rows_of (fst (comparison_main svc fs today site cs ce cur_start cur_end urls_file)) =
          rows_of (fst (comparison_loop svc cx 0 1 (length urls) urls))"
  proof (intro impI)
    assume h: "read_url_list fs urls_file = Inr urls \<and> urls \<noteq> []"
    obtain ev res where l: "comparison_loop svc cx 0 1 (length urls) urls = (ev, res)"
      by (cases "comparison_loop svc cx 0 1 (length urls) urls")
    show "snd (comparison_main svc fs today site cs ce cur_start cur_end urls_file) =
          snd (comparison_loop svc cx 0 1 (length urls) urls)
        \<and> rows_of (fst (comparison_main svc fs today site cs ce cur_start cur_end urls_file)) =
          rows_of (fst (comparison_loop svc cx 0 1 (length urls) urls))"
      using assms h l comparison_loop_result [of svc cx 0 1 "length urls" urls]
      by (auto simp: comparison_main_def Let_def cx_def [symmetric])
  qed
  have c: "read_url_list fs urls_file = Inr urls \<and> urls \<noteq> [] \<longrightarrow>
        (\<forall>m q msg. svc m q \<noteq> SaOtherError msg) \<longrightarrow>
            snd (comparison_main svc fs today site cs ce cur_start cur_end urls_file) = Inr ()
            \<and> map (\<lambda>r. map_of r ''page_url'')
                (rows_of (fst (comparison_main svc fs today site cs ce cur_start cur_end
                   urls_file))) =
              map (\<lambda>u. Some (PStr u)) urls"
    using b comparison_loop_completes [of svc cx 0 1 "length urls" urls]
      comparison_loop_targets [of svc cx 0 1 "length urls" urls]
    by simp
  show ?thesis
    using a b c unfolding cx_def by blast
qed

text \<open>
  Claim C6.  The retention horizon is \<open>today\<close> minus 16 calendar months with the day
  clamped to the last day of the target month (2026-03-31 minus one month is
  2026-02-28).  When the start of the current or of the previous period precedes the
  horizon, \<open>enforce_16_month_window\<close> exits with status 1, and the run ends there: the
  trace of \<open>main\<close> holds the warning alone, with no fetch and no row.  When both starts
  are on or after the horizon the check passes, and \<open>main\<close> goes on to load the URL
  list and to run the loop over it, which writes one row per URL unless a fetch raises an
  exception that is not an \<open>HttpError\<close>.
\<close>

theorem retention_window_guard:
  assumes "earliest_gsc_date today = Inr earliest"
  shows "(cur_start < earliest \<or> prev_start < earliest \<longrightarrow>
        enforce_16_month_window today cur_start prev_start =
          ([Print (MsgOutsideWindow earliest cur_start prev_start)], Inl (SystemExit (PInt 1))))
    \<and> (earliest \<le> cur_start \<and> earliest \<le> prev_start \<longrightarrow>
        enforce_16_month_window today cur_start prev_start = ([], Inr ()))
    \<and> (compute_previous_period cur_start cur_end = Inr (prev_start, prev_end, days)
        \<and> (cur_start < earliest \<or> prev_start < earliest) \<longrightarrow>
        comparison_main svc fs today site cs ce cur_start cur_end urls_file =
          ([Print (MsgOutsideWindow earliest cur_start prev_start)], Inl (SystemExit (PInt 1)))
        \<and> fetches_of (fst (comparison_main svc fs today site cs ce cur_start cur_end urls_file)) = []
        \<and> rows_of (fst (comparison_main svc fs today site cs ce cur_start cur_end urls_file)) = [])
    \<and> (compute_previous_period cur_start cur_end = Inr (prev_start, prev_end, days)
        \<and> earliest \<le> cur_start \<and> earliest \<le> prev_start \<longrightarrow>
        snd (comparison_main svc fs today site cs ce cur_start cur_end urls_file) \<noteq>
          Inl (SystemExit (PInt 1))
        \<and> (read_url_list fs urls_file = Inr urls \<and> urls \<noteq> [] \<longrightarrow>
            snd (comparison_main svc fs today site cs ce cur_start cur_end urls_file) =
              snd (comparison_loop svc
                     \<lparr>cx_site_url = site, cx_cur_start_s = cs, cx_cur_end_s = ce,
                      cx_prev_start_s = isoformat prev_start,
                      cx_prev_end_s = isoformat prev_end\<rparr> 0 1 (length urls) urls)
            \<and> rows_of (fst (comparison_main svc fs today site cs ce cur_start cur_end
                  urls_file)) =
              rows_of (fst (comparison_loop svc
                     \<lparr>cx_site_url = site, cx_cur_start_s = cs, cx_cur_end_s = ce,
                      cx_prev_start_s = isoformat prev_start,
                      cx_prev_end_s = isoformat prev_end\<rparr> 0 1 (length urls) urls))
            \<and> ((\<forall>m q msg. svc m q \<noteq> SaOtherError msg) \<longrightarrow>
                snd (comparison_main svc fs today site cs ce cur_start cur_end urls_file) =
                  Inr ()
                \<and> map (\<lambda>r. map_of r ''page_url'')
                    (rows_of (fst (comparison_main svc fs today site cs ce cur_start cur_end
                       urls_file))) =
                  map (\<lambda>u. Some (PStr u)) urls)))
    \<and> subtract_months today 16 = Inr earliest
    \<and> mk_date (if month_of today \<le> 4 then year_of today - 2 else year_of today - 1)
         (if month_of today \<le> 4 then month_of today + 8 else month_of today - 4)
         (min (day_of today)
            (days_in_month (if month_of today \<le> 4 then year_of today - 2 else year_of today - 1)
               (if month_of today \<le> 4 then month_of today + 8 else month_of today - 4))) =
        Inr earliest
    \<and> ord2ymd 739706 = (2026, 3, 31)
    \<and> subtract_months 739706 1 = mk_date 2026 2 28"
proof -
  have a: "cur_start < earliest \<or> prev_start < earliest \<longrightarrow>
        enforce_16_month_window today cur_start prev_start =
          ([Print (MsgOutsideWindow earliest cur_start prev_start)], Inl (SystemExit (PInt 1)))"
    using assms by (simp add: enforce_16_month_window_def)
  have b: "earliest \<le> cur_start \<and> earliest \<le> prev_start \<longrightarrow>
        enforce_16_month_window today cur_start prev_start = ([], Inr ())"
    using assms by (auto simp: enforce_16_month_window_def)
  have c: "compute_previous_period cur_start cur_end = Inr (prev_start, prev_end, days)
        \<and> (cur_start < earliest \<or> prev_start < earliest) \<longrightarrow>
        comparison_main svc fs today site cs ce cur_start cur_end urls_file =
          ([Print (MsgOutsideWindow earliest cur_start prev_start)], Inl (SystemExit (PInt 1)))
        \<and> fetches_of (fst (comparison_main svc fs today site cs ce cur_start cur_end urls_file)) = []
        \<and> rows_of (fst (comparison_main svc fs today site cs ce cur_start cur_end urls_file)) = []"
  proof (intro impI)
    assume h: "compute_previous_period cur_start cur_end = Inr (prev_start, prev_end, days)
        \<and> (cur_start < earliest \<or> prev_start < earliest)"
    then have "enforce_16_month_window today cur_start prev_start =
          ([Print (MsgOutsideWindow earliest cur_start prev_start)], Inl (SystemExit (PInt 1)))"
      using a by blast
    with h have "comparison_main svc fs today site cs ce cur_start cur_end urls_file =
          ([Print (MsgOutsideWindow earliest cur_start prev_start)], Inl (SystemExit (PInt 1)))"
      using comparison_main_rejected by blast
    then show "comparison_main svc fs today site cs ce cur_start cur_end urls_file =
          ([Print (MsgOutsideWindow earliest cur_start prev_start)], Inl (SystemExit (PInt 1)))
        \<and> fetches_of (fst (comparison_main svc fs today site cs ce cur_start cur_end urls_file)) = []
        \<and> rows_of (fst (comparison_main svc fs today site cs ce cur_start cur_end urls_file)) = []"
      by simp
  qed
  have d: "compute_previous_period cur_start cur_end = Inr (prev_start, prev_end, days)
        \<and> earliest \<le> cur_start \<and> earliest \<le> prev_start \<longrightarrow>
        snd (comparison_main svc fs today site cs ce cur_start cur_end urls_file) \<noteq>
          Inl (SystemExit (PInt 1))
        \<and> (read_url_list fs urls_file = Inr urls \<and> urls \<noteq> [] \<longrightarrow>
            snd (comparison_main svc fs today site cs ce cur_start cur_end urls_file) =
              snd (comparison_loop svc
                     \<lparr>cx_site_url = site, cx_cur_start_s = cs, cx_cur_end_s = ce,
                      cx_prev_start_s = isoformat prev_start,
                      cx_prev_end_s = isoformat prev_end\<rparr> 0 1 (length urls) urls)
            \<and> rows_of (fst (comparison_main svc fs today site cs ce cur_start cur_end
                  urls_file)) =
              rows_of (fst (comparison_loop svc
                     \<lparr>cx_site_url = site, cx_cur_start_s = cs, cx_cur_end_s = ce,
                      cx_prev_start_s = isoformat prev_start,
                      cx_prev_end_s = isoformat prev_end\<rparr> 0 1 (length urls) urls))
            \<and> ((\<forall>m q msg. svc m q \<noteq> SaOtherError msg) \<longrightarrow>
                snd (comparison_main svc fs today site cs ce cur_start cur_end urls_file) =
                  Inr ()
                \<and> map (\<lambda>r. map_of r ''page_url'')
                    (rows_of (fst (comparison_main svc fs today site cs ce cur_start cur_end
                       urls_file))) =
                  map (\<lambda>u. Some (PStr u)) urls))"
    using b comparison_main_accepted [of cur_start cur_end prev_start prev_end days today]
    by blast
  have e: "subtract_months today 16 = Inr earliest"
    using assms by (simp add: earliest_gsc_date_def)
  have f: "mk_date (if month_of today \<le> 4 then year_of today - 2 else year_of today - 1)
         (if month_of today \<le> 4 then month_of today + 8 else month_of today - 4)
         (min (day_of today)
            (days_in_month (if month_of today \<le> 4 then year_of today - 2 else year_of today - 1)
               (if month_of today \<le> 4 then month_of today + 8 else month_of today - 4))) =
        Inr earliest"
    using assms unfolding earliest_gsc_date_eq Let_def .
  have g: "ord2ymd 739706 = (2026, 3, 31)"
    by (simp add: ord2ymd_def Let_def DAYS_BEFORE_MONTH_def DAYS_IN_MONTH_def)
  have h: "subtract_months 739706 1 = mk_date 2026 2 28"
    by (simp add: subtract_months_def year_of_def month_of_def day_of_def g
        subtract_months_loop_pos monthrange_ndays_def DAYS_IN_MONTH_def is_leap_def)
  show ?thesis using a b c d e f g h by blast
qed

text \<open>
  On 2026-11-04 (day 739924) the horizon is 2025-07-04 (day 739436).  A run for March
  2025 (days 739311 to 739341) is rejected before any fetch; a run for March 2026
  (days 739676 to 739706) over a list of one URL passes the check and makes its two
  fetches.
\<close>

theorem retention_window_guard_witness:
  "earliest_gsc_date 739924 = Inr 739436
   \<and> isoformat 739924 = ''2026-11-04'' \<and> isoformat 739436 = ''2025-07-04''
   \<and> isoformat 739311 = ''2025-03-01''
   \<and> compute_previous_period 739311 739341 = Inr (739280, 739310, 31)
   \<and> (739311 :: int) < 739436
   \<and> comparison_main (\<lambda>n q. SaRows []) [''urls.txt'' \<mapsto> [''u'']] 739924 ''s''
        ''2025-03-01'' ''2025-03-31'' 739311 739341 ''urls.txt'' =
       ([Print (MsgOutsideWindow 739436 739311 739280)], Inl (SystemExit (PInt 1)))
   \<and> compute_previous_period 739676 739706 = Inr (739645, 739675, 31)
   \<and> (739436 :: int) \<le> 739676 \<and> (739436 :: int) \<le> 739645
   \<and> read_url_list [''urls.txt'' \<mapsto> [''u'']] ''urls.txt'' = Inr [''u'']
   \<and> snd (comparison_main (\<lambda>n q. SaRows []) [''urls.txt'' \<mapsto> [''u'']] 739924 ''s''
        ''2026-03-01'' ''2026-03-31'' 739676 739706 ''urls.txt'') = Inr ()
   \<and> map (\<lambda>r. map_of r ''page_url'')
        (rows_of (fst (comparison_main (\<lambda>n q. SaRows []) [''urls.txt'' \<mapsto> [''u'']] 739924 ''s''
           ''2026-03-01'' ''2026-03-31'' 739676 739706 ''urls.txt''))) = [Some (PStr ''u'')]"
proof -
  have h0: "earliest_gsc_date 739924 = Inr 739436"
    by (simp add: earliest_gsc_date_def subtract_months_def year_of_def month_of_def
        day_of_def ord2ymd_def Let_def DAYS_BEFORE_MONTH_def DAYS_IN_MONTH_def
        subtract_months_loop.simps monthrange_ndays_def mk_date_def days_in_month_def
        is_leap_def ymd2ord_def days_before_year_def days_before_month_def)
  have h1: "compute_previous_period 739311 739341 = Inr (739280, 739310, 31)"
    "compute_previous_period 739676 739706 = Inr (739645, 739675, 31)"
    by (simp_all add: compute_previous_period_def date_minus_days_def date_plus_days_def
        max_ordinal_def Let_def)
  have h2: "isoformat 739924 = ''2026-11-04''" "isoformat 739436 = ''2025-07-04''"
    "isoformat 739311 = ''2025-03-01''"
    by (simp_all add: isoformat_def year_of_def month_of_def day_of_def ord2ymd_def Let_def
        DAYS_BEFORE_MONTH_def DAYS_IN_MONTH_def zfill_def dec.simps)
  have h3: "read_url_list [''urls.txt'' \<mapsto> [''u'']] ''urls.txt'' = Inr [''u'']"
    by (simp add: read_url_list_def py_strip_def is_space_def py_startswith_def Let_def)
  show ?thesis
    using h0 h1 h2 h3
      retention_window_guard [OF h0, where cur_start = 739311 and cur_end = 739341
        and prev_start = 739280 and prev_end = 739310 and days = 31
        and svc = "\<lambda>n q. SaRows []" and fs = "[''urls.txt'' \<mapsto> [''u'']]" and site = "''s''"
        and cs = "''2025-03-01''" and ce = "''2025-03-31''" and urls_file = "''urls.txt''"
        and urls = "[''u'']"]
      retention_window_guard [OF h0, where cur_start = 739676 and cur_end = 739706
        and prev_start = 739645 and prev_end = 739675 and days = 31
        and svc = "\<lambda>n q. SaRows []" and fs = "[''urls.txt'' \<mapsto> [''u'']]" and site = "''s''"
        and cs = "''2026-03-01''" and ce = "''2026-03-31''" and urls_file = "''urls.txt''"
        and urls = "[''u'']"]
    by (simp add: comparison_item_def fetch_page_metrics_def progress_def comparison_row_def
        Let_def)
qed

section \<open>The runs as a whole\<close>

text \<open>
  A run of the URL inspection script over a list that loads with at least one entry
  completes, and its report has one row per entry of the list; so does a run of the
  keyword script when no fetch raises an exception other than \<open>HttpError\<close>.
\<close>

lemma keyword_main_rows:
  assumes "match_type = ''equals'' \<or> match_type = ''contains''"
    and "read_list fs keywords_file = Inr kws" and "kws \<noteq> []"
    and other: "\<And>m q msg. svc m q \<noteq> SaOtherError msg"
  shows "snd (keyword_main svc fs site start_date end_date keywords_file match_type) = Inr ()
    \<and> map (\<lambda>r. map_of r ''keyword'')
        (rows_of (fst (keyword_main svc fs site start_date end_date keywords_file match_type))) =
      map (\<lambda>kw. Some (PStr kw)) kws"
proof -
  define cx where "cx = \<lparr>kc_site_url = site, kc_start_date = start_date,
      kc_end_date = end_date, kc_match_type = match_type\<rparr>"
  obtain ev where ev: "keyword_loop svc cx 0 kws = (ev, Inr ())"
    using keyword_loop_completes [where svc = svc and cx = cx and n = 0 and kws = kws] other
    by (cases "keyword_loop svc cx 0 kws") auto
  have "map (\<lambda>r. map_of r ''keyword'') (rows_of ev) = map (\<lambda>kw. Some (PStr kw)) kws"
    using keyword_loop_targets [where svc = svc and cx = cx and n = 0 and kws = kws] other ev by simp
  then show ?thesis
    using assms(1-3) ev by (auto simp: keyword_main_def Let_def cx_def [symmetric])
qed

lemma indexing_main_rows:
  assumes "read_urls fs urls_file = Inr urls" and "urls \<noteq> []"
  shows "snd (indexing_main svc fs site urls_file language_code) = Inr ()
    \<and> map (\<lambda>r. map_of r ''inspection_url'')
        (rows_of (fst (indexing_main svc fs site urls_file language_code))) =
      map (\<lambda>u. Some (PStr u)) urls"
  using assms by (simp add: indexing_main_def indexing_loop_targets)

end
